theory Spec2Isabelle
  imports Complex_Main
begin

section \<open>Python values and exceptions\<close>

text \<open>
  The pipeline works on what \<^verbatim>\<open>json.loads\<close> returns: \<^verbatim>\<open>None\<close>, booleans,
  unbounded integers, floats, strings, lists and dictionaries. A \<^verbatim>\<open>str\<close> is a list
  of code points, one \<open>char\<close> each (so code points up to 255 are covered, and
  \<open>length\<close> counts code points as Python's \<^verbatim>\<open>len\<close> does); a \<^verbatim>\<open>bytes\<close> value is a list
  of bytes, one \<open>char\<close> each. A dictionary is an association list in insertion
  order, read by \<open>map_of\<close>. Floats are real numbers (no NaN, no infinities); the
  only operations the code applies to a float are its truth value and its
  rendering in an f-string, and the rendering is a parameter.
\<close>

type_synonym pystr = string
type_synonym pybytes = string

datatype pyval =
    PNone
  | PBool bool
  | PInt int
  | PFloat real
  | PStr pystr
  | PList "pyval list"
  | PDict "(pystr \<times> pyval) list"

type_synonym pydict = "(pystr \<times> pyval) list"

text \<open>Every exception that can leave one of the modelled functions.\<close>

datatype py_error =
    AttributeError
  | TypeError
  | KeyError
  | IndexError
  | UnicodeDecodeError

fun truthy :: "pyval \<Rightarrow> bool" where
  "truthy PNone = False"
| "truthy (PBool b) = b"
| "truthy (PInt i) = (i \<noteq> 0)"
| "truthy (PFloat x) = (x \<noteq> 0)"
| "truthy (PStr s) = (s \<noteq> [])"
| "truthy (PList xs) = (xs \<noteq> [])"
| "truthy (PDict d) = (d \<noteq> [])"

text \<open>\<^verbatim>\<open>event.get(key)\<close>: only a dictionary has the method; a missing key gives \<^verbatim>\<open>None\<close>.\<close>

fun py_get :: "pyval \<Rightarrow> pystr \<Rightarrow> py_error + pyval" where
  "py_get (PDict d) k = Inr (case map_of d k of None \<Rightarrow> PNone | Some v \<Rightarrow> v)"
| "py_get _ k = Inl AttributeError"

text \<open>\<^verbatim>\<open>event[key]\<close> for a string key.\<close>

fun py_getitem :: "pyval \<Rightarrow> pystr \<Rightarrow> py_error + pyval" where
  "py_getitem (PDict d) k = (case map_of d k of None \<Rightarrow> Inl KeyError | Some v \<Rightarrow> Inr v)"
| "py_getitem _ k = Inl TypeError"

text \<open>\<^verbatim>\<open>d[key] = v\<close>: an existing key keeps its position, a new key goes last.\<close>

fun dict_set :: "pydict \<Rightarrow> pystr \<Rightarrow> pyval \<Rightarrow> pydict" where
  "dict_set [] k v = [(k, v)]"
| "dict_set ((k', v') # d) k v = (if k' = k then (k, v) # d else (k', v') # dict_set d k v)"

text \<open>
  \<^verbatim>\<open>x in S\<close> for a set \<open>S\<close> of strings: the value is hashed first, which raises
  \<^verbatim>\<open>TypeError\<close> for a list or a dictionary; a value that is not a string equals no
  member.
\<close>

fun py_in :: "pyval \<Rightarrow> pystr set \<Rightarrow> py_error + bool" where
  "py_in (PStr s) S = Inr (s \<in> S)"
| "py_in (PList xs) S = Inl TypeError"
| "py_in (PDict d) S = Inl TypeError"
| "py_in _ S = Inr False"

subsection \<open>Decimal rendering\<close>

definition digit_char :: "nat \<Rightarrow> char" where
  "digit_char d = ''0123456789'' ! d"

fun str_nat :: "nat \<Rightarrow> string" where
  "str_nat n = (if n < 10 then [digit_char n] else str_nat (n div 10) @ [digit_char (n mod 10)])"

text \<open>\<^verbatim>\<open>str(i)\<close> for an integer.\<close>

definition str_int :: "int \<Rightarrow> string" where
  "str_int i = (if i < 0 then CHR ''-'' # str_nat (nat (- i)) else str_nat (nat i))"

text \<open>Zero padding to a width, as \<^verbatim>\<open>{i:07d}\<close> and \<^verbatim>\<open>%m\<close> do.\<close>

definition zpad :: "nat \<Rightarrow> nat \<Rightarrow> string" where
  "zpad w n = replicate (w - length (str_nat n)) CHR ''0'' @ str_nat n"

text \<open>
  What an f-string puts for a value: the string itself, or \<^verbatim>\<open>str\<close> of the value.
  \<open>repr\<close> renders floats, lists and dictionaries.
\<close>

fun py_str :: "(pyval \<Rightarrow> string) \<Rightarrow> pyval \<Rightarrow> string" where
  "py_str repr (PStr s) = s"
| "py_str repr PNone = ''None''"
| "py_str repr (PBool b) = (if b then ''True'' else ''False'')"
| "py_str repr (PInt i) = str_int i"
| "py_str repr v = repr v"

section \<open>Validation\<close>

definition VALID_EVENT_TYPES :: "pystr set" where
  "VALID_EVENT_TYPES =
     {''video_start'', ''video_pause'', ''video_stop'', ''video_complete'', ''buffer_event''}"

definition VALID_DEVICE_TYPES :: "pystr set" where
  "VALID_DEVICE_TYPES =
     {''smart_tv'', ''mobile'', ''tablet'', ''desktop'', ''game_console'', ''streaming_stick''}"

definition required_fields :: "pystr list" where
  "required_fields = [''event_id'', ''event_type'', ''user_id'', ''content_id'', ''timestamp'']"

text \<open>The loop over the required fields of \<^verbatim>\<open>_validate_event\<close>, \<open>errors\<close> being the list so far.\<close>

fun missing_loop :: "pyval \<Rightarrow> pystr list \<Rightarrow> string list \<Rightarrow> py_error + string list" where
  "missing_loop event [] errors = Inr errors"
| "missing_loop event (field # rest) errors =
     (case py_get event field of
        Inl e \<Rightarrow> Inl e
      | Inr v \<Rightarrow>
          missing_loop event rest
            (if \<not> truthy v then errors @ [''missing required field: '' @ field] else errors))"

text \<open>
  One of the two membership checks:
  \<^verbatim>\<open>if event.get(key) and event[key] not in valid: errors.append(f"<label>{event[key]}")\<close>.
\<close>

definition enum_check ::
  "(pyval \<Rightarrow> string) \<Rightarrow> pyval \<Rightarrow> pystr \<Rightarrow> pystr set \<Rightarrow> string \<Rightarrow> string list
     \<Rightarrow> py_error + string list" where
  "enum_check repr event key valid label errors =
     (case py_get event key of
        Inl e \<Rightarrow> Inl e
      | Inr g \<Rightarrow>
          if \<not> truthy g then Inr errors
          else (case py_getitem event key of
                  Inl e \<Rightarrow> Inl e
                | Inr v \<Rightarrow>
                    (case py_in v valid of
                       Inl e \<Rightarrow> Inl e
                     | Inr True \<Rightarrow> Inr errors
                     | Inr False \<Rightarrow> Inr (errors @ [label @ py_str repr v]))))"

text \<open>\<^verbatim>\<open>_validate_event\<close>.\<close>

definition validate_event :: "(pyval \<Rightarrow> string) \<Rightarrow> pyval \<Rightarrow> py_error + string list" where
  "validate_event repr event =
     (case missing_loop event required_fields [] of
        Inl e \<Rightarrow> Inl e
      | Inr errors1 \<Rightarrow>
          (case enum_check repr event ''event_type'' VALID_EVENT_TYPES ''invalid event_type: '' errors1 of
             Inl e \<Rightarrow> Inl e
           | Inr errors2 \<Rightarrow>
               enum_check repr event ''device_type'' VALID_DEVICE_TYPES ''invalid device_type: '' errors2))"

section \<open>Timestamps and identifiers\<close>

text \<open>
  A \<^verbatim>\<open>datetime\<close> value. \<open>dt_utcoffset\<close> is the offset from UTC in seconds, \<open>None\<close> for
  a naive value.
\<close>

record datetime =
  dt_year :: nat
  dt_month :: nat
  dt_day :: nat
  dt_hour :: nat
  dt_minute :: nat
  dt_second :: nat
  dt_microsecond :: nat
  dt_utcoffset :: "int option"

text \<open>
  \<^verbatim>\<open>ts.strftime("%Y-%m-%dT%H:00:00Z")\<close>: the fields of the value as they stand (no
  conversion to UTC), zero padded as the library documents (four digits for the
  year, two for the others), with the rest of the pattern copied. For a year below
  1000 the padding of \<^verbatim>\<open>%Y\<close> depends on the platform's C library; the model
  follows the documentation.
\<close>

definition strftime_hour :: "datetime \<Rightarrow> string" where
  "strftime_hour ts =
     zpad 4 (dt_year ts) @ ''-'' @ zpad 2 (dt_month ts) @ ''-'' @ zpad 2 (dt_day ts)
       @ ''T'' @ zpad 2 (dt_hour ts) @ '':00:00Z''"

definition isoformat_offset :: "int option \<Rightarrow> string" where
  "isoformat_offset off =
     (case off of
        None \<Rightarrow> []
      | Some s \<Rightarrow>
          (if s < 0 then ''-'' else ''+'') @ zpad 2 (nat \<bar>s\<bar> div 3600) @ '':''
            @ zpad 2 (nat \<bar>s\<bar> div 60 mod 60)
            @ (if nat \<bar>s\<bar> mod 60 \<noteq> 0 then '':'' @ zpad 2 (nat \<bar>s\<bar> mod 60) else []))"

text \<open>\<^verbatim>\<open>dt.isoformat()\<close>.\<close>

definition isoformat :: "datetime \<Rightarrow> string" where
  "isoformat ts =
     zpad 4 (dt_year ts) @ ''-'' @ zpad 2 (dt_month ts) @ ''-'' @ zpad 2 (dt_day ts)
       @ ''T'' @ zpad 2 (dt_hour ts) @ '':'' @ zpad 2 (dt_minute ts) @ '':'' @ zpad 2 (dt_second ts)
       @ (if dt_microsecond ts \<noteq> 0 then ''.'' @ zpad 6 (dt_microsecond ts) else [])
       @ isoformat_offset (dt_utcoffset ts)"

text \<open>\<^verbatim>\<open>s.replace("Z", "+00:00")\<close>: every \<^verbatim>\<open>Z\<close> of the string is replaced.\<close>

definition replace_Z :: "pystr \<Rightarrow> pystr" where
  "replace_Z s = concat (map (\<lambda>c. if c = CHR ''Z'' then ''+00:00'' else [c]) s)"

definition hex_char :: "nat \<Rightarrow> char" where
  "hex_char d = ''0123456789abcdef'' ! d"

fun hex_digits :: "nat \<Rightarrow> nat \<Rightarrow> string" where
  "hex_digits 0 n = []"
| "hex_digits (Suc w) n = hex_digits w (n div 16) @ [hex_char (n mod 16)]"

text \<open>
  \<^verbatim>\<open>str(u)\<close> for a UUID given as its 128-bit integer: the 32 hex digits of
  \<^verbatim>\<open>'%032x' % u.int\<close>, in groups 8-4-4-4-12.
\<close>

definition str_uuid :: "nat \<Rightarrow> string" where
  "str_uuid n =
     (let h = hex_digits 32 n
      in take 8 h @ ''-'' @ take 4 (drop 8 h) @ ''-'' @ take 4 (drop 12 h) @ ''-''
           @ take 4 (drop 16 h) @ ''-'' @ drop 20 h)"

section \<open>The environment of one invocation\<close>

text \<open>
  The dead-letter envelope, before \<^verbatim>\<open>json.dumps\<close> turns it into the message body.
\<close>

record envelope =
  original_event :: pystr
  validation_errors :: "string list"
  rejected_at :: string

datatype log_level = INFO | WARNING | ERROR

text \<open>
  One entry per logging call of the module, with the arguments the call interpolates.
\<close>

datatype log_event =
    ReceivedBatch nat
  | MalformedJson
  | ValidationFailed "string list"
  | CosmosWriteFailed
  | UnexpectedCosmosError
  | DlqNotConfigured
  | DlqSent
  | DlqSendFailed
  | BatchComplete nat nat nat

fun level_of :: "log_event \<Rightarrow> log_level" where
  "level_of (ReceivedBatch n) = INFO"
| "level_of MalformedJson = ERROR"
| "level_of (ValidationFailed errs) = WARNING"
| "level_of CosmosWriteFailed = ERROR"
| "level_of UnexpectedCosmosError = ERROR"
| "level_of DlqNotConfigured = WARNING"
| "level_of DlqSent = INFO"
| "level_of DlqSendFailed = ERROR"
| "level_of (BatchComplete s e n) = INFO"

text \<open>
  What the function changes outside itself: the messages delivered to the dead-letter
  hub, the documents upserted into the container, and the log.
\<close>

record world =
  dlq_hub :: "envelope list"
  cosmos :: "pyval list"
  logs :: "log_event list"

definition log_event :: "log_event \<Rightarrow> world \<Rightarrow> world" where
  "log_event ev w = w\<lparr>logs := logs w @ [ev]\<rparr>"

datatype upsert_result = Upserted | CosmosHttpResponseError | OtherException

datatype send_result = Sent | SendRaised

text \<open>
  The library and service calls the module makes. They are not code of this
  repository, so they are parameters: \<open>None\<close> from \<open>decode_utf8\<close> is
  \<^verbatim>\<open>UnicodeDecodeError\<close>, \<open>None\<close> from \<open>json_loads\<close> is \<^verbatim>\<open>json.JSONDecodeError\<close>, \<open>None\<close>
  from \<open>fromisoformat\<close> is \<^verbatim>\<open>ValueError\<close>. The calls whose result changes from one
  call to the next (the clock, the UUID source, the two services) take the position
  of the batch item during which they are made; an item makes each call at most once.
  \<open>dlq_producer\<close> is the handle \<^verbatim>\<open>_get_dlq_producer()\<close> resolves: \<open>False\<close> when the
  function returns \<^verbatim>\<open>None\<close> because no connection is configured. The container handle
  of \<^verbatim>\<open>_get_cosmos_container()\<close> is taken as resolved.
\<close>

record env =
  decode_utf8 :: "pybytes \<Rightarrow> pystr option"
  json_loads :: "pystr \<Rightarrow> pyval option"
  json_dumps :: "pyval \<Rightarrow> pystr"
  float_repr :: "pyval \<Rightarrow> string"
  fromisoformat :: "pystr \<Rightarrow> datetime option"
  now_utc :: "nat \<Rightarrow> datetime"
  uuid4 :: "nat \<Rightarrow> nat"
  dlq_producer :: bool
  send_batch :: "nat \<Rightarrow> envelope \<Rightarrow> send_result"
  upsert_item :: "nat \<Rightarrow> pyval \<Rightarrow> upsert_result"

section \<open>Enrichment\<close>

text \<open>
  The \<^verbatim>\<open>try\<close> block of \<^verbatim>\<open>_enrich_event\<close>, as the value it stores under
  \<^verbatim>\<open>hour_bucket\<close>. The argument is the lookup of \<^verbatim>\<open>timestamp\<close>: a missing key raises
  \<^verbatim>\<open>KeyError\<close> and a string that does not parse raises \<^verbatim>\<open>ValueError\<close>, both caught; a
  value that is not a string has no \<^verbatim>\<open>replace\<close> method, and \<^verbatim>\<open>AttributeError\<close> is not
  caught.
\<close>

fun hour_bucket :: "(pystr \<Rightarrow> datetime option) \<Rightarrow> pyval option \<Rightarrow> py_error + pyval" where
  "hour_bucket parse None = Inr PNone"
| "hour_bucket parse (Some (PStr s)) =
     (case parse (replace_Z s) of
        None \<Rightarrow> Inr PNone
      | Some ts \<Rightarrow> Inr (PStr (strftime_hour ts)))"
| "hour_bucket parse (Some v) = Inl AttributeError"

text \<open>
  \<^verbatim>\<open>_enrich_event\<close>, called while item \<open>i\<close> of the batch is processed. The dictionary is
  updated in place and returned.
\<close>

fun enrich_event :: "env \<Rightarrow> nat \<Rightarrow> pyval \<Rightarrow> py_error + pyval" where
  "enrich_event env i (PDict d) =
     (let d1 = dict_set d ''id''
                 (case map_of d ''event_id'' of
                    None \<Rightarrow> PStr (str_uuid (uuid4 env i))
                  | Some v \<Rightarrow> v);
          d2 = dict_set d1 ''processed_at'' (PStr (isoformat (now_utc env i)));
          d3 = dict_set d2 ''processing_version'' (PStr ''1.0.0'')
      in (case hour_bucket (fromisoformat env) (map_of d3 ''timestamp'') of
            Inl e \<Rightarrow> Inl e
          | Inr b \<Rightarrow> Inr (PDict (dict_set d3 ''hour_bucket'' b))))"
| "enrich_event env i event = Inl AttributeError"

section \<open>Dead-letter routing\<close>

text \<open>
  The body of the \<^verbatim>\<open>try\<close> in \<^verbatim>\<open>_send_to_dlq\<close>: build the envelope, then create the
  batch, add the message and send it. \<open>send_batch\<close> says whether one of the three
  calls raised.
\<close>

definition dlq_try :: "env \<Rightarrow> nat \<Rightarrow> pystr \<Rightarrow> string list \<Rightarrow> world \<Rightarrow> send_result \<times> world" where
  "dlq_try env i raw_body errors w =
     (let dlq_payload =
            \<lparr>original_event = take 8192 raw_body,
             validation_errors = errors,
             rejected_at = isoformat (now_utc env i)\<rparr>
      in (case send_batch env i dlq_payload of
            SendRaised \<Rightarrow> (SendRaised, w)
          | Sent \<Rightarrow> (Sent, log_event DlqSent (w\<lparr>dlq_hub := dlq_hub w @ [dlq_payload]\<rparr>))))"

text \<open>\<^verbatim>\<open>_send_to_dlq\<close>.\<close>

definition send_to_dlq :: "env \<Rightarrow> nat \<Rightarrow> pystr \<Rightarrow> string list \<Rightarrow> world \<Rightarrow> py_error + world" where
  "send_to_dlq env i raw_body errors w =
     (if \<not> dlq_producer env then Inr (log_event DlqNotConfigured w)
      else (case dlq_try env i raw_body errors w of
              (SendRaised, w') \<Rightarrow> Inr (log_event DlqSendFailed w')
            | (Sent, w') \<Rightarrow> Inr w'))"

section \<open>The batch processor\<close>

record batch_state =
  success_count :: nat
  error_count :: nat
  outside :: world

text \<open>One iteration of the loop of \<^verbatim>\<open>main\<close>, for the item at position \<open>i\<close>.\<close>

definition process_item :: "env \<Rightarrow> nat \<Rightarrow> pybytes \<Rightarrow> batch_state \<Rightarrow> py_error + batch_state" where
  "process_item env i body st =
     (case decode_utf8 env body of
        None \<Rightarrow> Inl UnicodeDecodeError
      | Some raw_body \<Rightarrow>
          (case json_loads env raw_body of
             None \<Rightarrow>
               (case send_to_dlq env i raw_body [''invalid JSON''] (log_event MalformedJson (outside st)) of
                  Inl e \<Rightarrow> Inl e
                | Inr w \<Rightarrow> Inr (st\<lparr>error_count := error_count st + 1, outside := w\<rparr>))
           | Some data \<Rightarrow>
               (case validate_event (float_repr env) data of
                  Inl e \<Rightarrow> Inl e
                | Inr violations \<Rightarrow>
                    if violations \<noteq> [] then
                      (case send_to_dlq env i raw_body violations
                              (log_event (ValidationFailed violations) (outside st)) of
                         Inl e \<Rightarrow> Inl e
                       | Inr w \<Rightarrow> Inr (st\<lparr>error_count := error_count st + 1, outside := w\<rparr>))
                    else
                      (case enrich_event env i data of
                         Inl e \<Rightarrow> Inl e
                       | Inr enriched \<Rightarrow>
                           (case upsert_item env i enriched of
                              Upserted \<Rightarrow>
                                Inr (st\<lparr>success_count := success_count st + 1,
                                         outside := (outside st)\<lparr>cosmos := cosmos (outside st) @ [enriched]\<rparr>\<rparr>)
                            | CosmosHttpResponseError \<Rightarrow>
                                Inr (st\<lparr>error_count := error_count st + 1,
                                         outside := log_event CosmosWriteFailed (outside st)\<rparr>)
                            | OtherException \<Rightarrow>
                                Inr (st\<lparr>error_count := error_count st + 1,
                                         outside := log_event UnexpectedCosmosError (outside st)\<rparr>))))))"

fun main_loop :: "env \<Rightarrow> nat \<Rightarrow> pybytes list \<Rightarrow> batch_state \<Rightarrow> py_error + batch_state" where
  "main_loop env i [] st = Inr st"
| "main_loop env i (body # rest) st =
     (case process_item env i body st of
        Inl e \<Rightarrow> Inl e
      | Inr st' \<Rightarrow> main_loop env (Suc i) rest st')"

text \<open>
  \<^verbatim>\<open>main\<close>. The Python function returns nothing; what it reports is the last log
  line, and the result here is the state at that line: the two counters and the
  world with the line appended.
\<close>

definition main :: "env \<Rightarrow> pybytes list \<Rightarrow> world \<Rightarrow> py_error + batch_state" where
  "main env events w =
     (case main_loop env 0 events
             \<lparr>success_count = 0, error_count = 0, outside = log_event (ReceivedBatch (length events)) w\<rparr> of
        Inl e \<Rightarrow> Inl e
      | Inr st \<Rightarrow>
          Inr (st\<lparr>outside :=
                    log_event (BatchComplete (success_count st) (error_count st) (length events))
                      (outside st)\<rparr>))"

section \<open>The event model\<close>

text \<open>The dataclass \<^verbatim>\<open>StreamingEvent\<close>; the two optional fields are \<open>None\<close> by default.\<close>

record StreamingEvent =
  event_id :: pystr
  event_type :: pystr
  user_id :: pystr
  session_id :: pystr
  content_id :: pystr
  content_title :: pystr
  content_type :: pystr
  timestamp :: pystr
  duration_seconds :: real
  playback_position_seconds :: real
  device_type :: pystr
  device_id :: pystr
  location :: pydict
  quality_settings :: pydict
  buffer_duration_ms :: "real option"
  error_code :: "pystr option"
  profile_id :: pystr
  subscription_tier :: pystr




section \<open>The synthetic event generator\<close>

record catalog_entry =
  c_id :: pystr
  c_title :: pystr
  c_type :: pystr
  c_duration :: nat

definition catalog_entry :: "pystr \<Rightarrow> pystr \<Rightarrow> pystr \<Rightarrow> nat \<Rightarrow> catalog_entry" where
  "catalog_entry i t ty d = \<lparr>c_id = i, c_title = t, c_type = ty, c_duration = d\<rparr>"

definition CONTENT_CATALOG :: "catalog_entry list" where
  "CONTENT_CATALOG =
     [catalog_entry ''NF001'' ''Stranger Things S4'' ''tv_episode'' 4500,
      catalog_entry ''NF002'' ''Wednesday S1'' ''tv_episode'' 2700,
      catalog_entry ''NF003'' ''Glass Onion'' ''movie'' 8400,
      catalog_entry ''NF004'' ''All Quiet on the Western Front'' ''movie'' 8880,
      catalog_entry ''NF005'' ''The Crown S5'' ''tv_episode'' 3600,
      catalog_entry ''NF006'' ''Dahmer'' ''tv_episode'' 3000,
      catalog_entry ''NF007'' ''Our Planet II'' ''documentary'' 3000,
      catalog_entry ''NF008'' ''Squid Game S1'' ''tv_episode'' 3300,
      catalog_entry ''NF009'' ''The Witcher S3'' ''tv_episode'' 3600,
      catalog_entry ''NF010'' ''Heart of Stone'' ''movie'' 7500,
      catalog_entry ''NF011'' ''Dave Chappelle: The Closer'' ''special'' 4200,
      catalog_entry ''NF012'' ''Extraction 2'' ''movie'' 7200,
      catalog_entry ''NF013'' ''Black Mirror S6'' ''tv_episode'' 4200,
      catalog_entry ''NF014'' ''The Diplomat S1'' ''tv_episode'' 2700,
      catalog_entry ''NF015'' ''You S4'' ''tv_episode'' 3000,
      catalog_entry ''NF016'' ''Behind the Curve'' ''documentary'' 5700,
      catalog_entry ''NF017'' ''Rebel Moon'' ''movie'' 8100,
      catalog_entry ''NF018'' ''One Piece S1'' ''tv_episode'' 3300,
      catalog_entry ''NF019'' ''The Night Agent S1'' ''tv_episode'' 2700,
      catalog_entry ''NF020'' ''Luther: The Fallen Sun'' ''movie'' 7800]"

definition location_entry :: "pystr \<Rightarrow> pystr \<Rightarrow> pystr \<Rightarrow> real \<Rightarrow> real \<Rightarrow> pydict" where
  "location_entry country region city lat lon =
     [(''country'', PStr country), (''region'', PStr region), (''city'', PStr city),
      (''lat'', PFloat lat), (''lon'', PFloat lon)]"

definition LOCATIONS :: "pydict list" where
  "LOCATIONS =
     [location_entry ''US'' ''California'' ''Los Angeles'' 34.05 (- 118.24),
      location_entry ''US'' ''New York'' ''New York'' 40.71 (- 74.00),
      location_entry ''US'' ''Texas'' ''Houston'' 29.76 (- 95.36),
      location_entry ''US'' ''Illinois'' ''Chicago'' 41.88 (- 87.63),
      location_entry ''UK'' ''England'' ''London'' 51.51 (- 0.13),
      location_entry ''DE'' ''Bavaria'' ''Munich'' 48.14 11.58,
      location_entry ''JP'' ''Kanto'' ''Tokyo'' 35.68 139.69,
      location_entry ''BR'' ''Sao Paulo'' ''Sao Paulo'' (- 23.55) (- 46.63),
      location_entry ''IN'' ''Maharashtra'' ''Mumbai'' 19.08 72.88,
      location_entry ''AU'' ''NSW'' ''Sydney'' (- 33.87) 151.21,
      location_entry ''CA'' ''Ontario'' ''Toronto'' 43.65 (- 79.38),
      location_entry ''FR'' ''Ile-de-France'' ''Paris'' 48.86 2.35,
      location_entry ''KR'' ''Seoul'' ''Seoul'' 37.57 126.98,
      location_entry ''MX'' ''CDMX'' ''Mexico City'' 19.43 (- 99.13),
      location_entry ''ES'' ''Madrid'' ''Madrid'' 40.42 (- 3.70)]"

definition SUBSCRIPTION_TIERS :: "pystr list" where
  "SUBSCRIPTION_TIERS = [''basic'', ''standard'', ''premium'']"

definition QUALITY_MAP :: "(pystr \<times> (pystr \<times> nat) list) list" where
  "QUALITY_MAP =
     [(''basic'', [(''480p'', 2500)]),
      (''standard'', [(''720p'', 5000), (''1080p'', 8000)]),
      (''premium'', [(''1080p'', 8000), (''4K'', 16000), (''4K_HDR'', 20000)])]"

definition DEVICE_WEIGHTS :: "(pystr \<times> real) list" where
  "DEVICE_WEIGHTS =
     [(''smart_tv'', 0.35), (''mobile'', 0.28), (''tablet'', 0.10),
      (''desktop'', 0.12), (''game_console'', 0.08), (''streaming_stick'', 0.07)]"

definition EVENT_WEIGHTS :: "(pystr \<times> real) list" where
  "EVENT_WEIGHTS =
     [(''video_start'', 0.30), (''video_pause'', 0.15), (''video_stop'', 0.20),
      (''video_complete'', 0.25), (''buffer_event'', 0.10)]"

subsection \<open>Random draws\<close>

text \<open>
  Each call of the \<^verbatim>\<open>random\<close> and \<^verbatim>\<open>uuid\<close> modules consumes one natural number of
  entropy, given as an argument. \<^verbatim>\<open>random.choice\<close> raises \<^verbatim>\<open>IndexError\<close> on an empty
  sequence and returns one of its elements otherwise. \<^verbatim>\<open>random.choices(..., k=1)[0]\<close>
  is modelled the same way: all the weights of this module are positive, so the
  weights decide how often an element is returned and not which elements can be.
  \<^verbatim>\<open>random.random()\<close> is a multiple of \<open>2\<^sup>-\<^sup>5\<^sup>3\<close> in \<open>[0, 1)\<close>, and
  \<^verbatim>\<open>random.uniform(a, b)\<close> is \<^verbatim>\<open>a + (b - a) * random()\<close>, computed here in the reals.
\<close>

definition choice :: "'a list \<Rightarrow> nat \<Rightarrow> py_error + 'a" where
  "choice xs r = (if xs = [] then Inl IndexError else Inr (xs ! (r mod length xs)))"

definition py_random :: "nat \<Rightarrow> real" where
  "py_random r = real (r mod 2 ^ 53) / 2 ^ 53"

definition uniform :: "real \<Rightarrow> real \<Rightarrow> nat \<Rightarrow> real" where
  "uniform a b r = a + (b - a) * py_random r"

text \<open>\<^verbatim>\<open>random.randint(a, b)\<close>, both ends included.\<close>

definition randint :: "nat \<Rightarrow> nat \<Rightarrow> nat \<Rightarrow> nat" where
  "randint a b r = a + r mod (b - a + 1)"

text \<open>
  \<^verbatim>\<open>round(x, ndigits)\<close>: the nearest multiple of \<open>10\<^sup>-\<^sup>n\<close>, a tie going to the even one.
\<close>

definition round_half_even :: "real \<Rightarrow> int" where
  "round_half_even y =
     (let f = \<lfloor>y\<rfloor>; d = y - of_int f
      in if d < 1 / 2 then f else if 1 / 2 < d then f + 1 else if even f then f else f + 1)"

definition py_round :: "real \<Rightarrow> nat \<Rightarrow> real" where
  "py_round x ndigits = of_int (round_half_even (x * 10 ^ ndigits)) / 10 ^ ndigits"

text \<open>\<^verbatim>\<open>sub in s\<close> for two strings.\<close>

fun contains :: "string \<Rightarrow> string \<Rightarrow> bool" where
  "contains [] sub = (sub = [])"
| "contains (c # cs) sub = (take (length sub) (c # cs) = sub \<or> contains cs sub)"

definition bind :: "py_error + 'a \<Rightarrow> ('a \<Rightarrow> py_error + 'b) \<Rightarrow> py_error + 'b" where
  "bind m f = (case m of Inl e \<Rightarrow> Inl e | Inr x \<Rightarrow> f x)"

subsection \<open>The user pool\<close>

text \<open>One entry of \<^verbatim>\<open>self.users\<close>.\<close>

record user =
  u_user_id :: pystr
  u_profile_id :: pystr
  u_device_type :: pystr
  u_device_id :: pystr
  u_location :: pydict
  u_subscription_tier :: pystr

text \<open>The entropy for one user, in the order the calls are made.\<close>

record user_draws =
  ud_tier :: nat
  ud_profile :: nat
  ud_device :: nat
  ud_device_id :: nat
  ud_location :: nat

text \<open>The body of the loop of \<^verbatim>\<open>_build_user_pool\<close> for index \<open>i\<close>.\<close>

definition make_user :: "nat \<Rightarrow> user_draws \<Rightarrow> py_error + user" where
  "make_user i ud =
     bind (choice SUBSCRIPTION_TIERS (ud_tier ud)) (\<lambda>tier.
     bind (choice (map fst DEVICE_WEIGHTS) (ud_device ud)) (\<lambda>dev.
     bind (choice LOCATIONS (ud_location ud)) (\<lambda>loc.
       Inr \<lparr>u_user_id = ''U'' @ zpad 7 i,
            u_profile_id = ''P'' @ zpad 7 i @ ''_'' @ str_nat (randint 1 5 (ud_profile ud)),
            u_device_type = dev,
            u_device_id = str_uuid (ud_device_id ud),
            u_location = loc,
            u_subscription_tier = tier\<rparr>)))"

fun build_users :: "nat list \<Rightarrow> (nat \<Rightarrow> user_draws) \<Rightarrow> py_error + user list" where
  "build_users [] draws = Inr []"
| "build_users (i # rest) draws =
     bind (make_user i (draws i)) (\<lambda>u.
     bind (build_users rest draws) (\<lambda>us. Inr (u # us)))"

text \<open>\<^verbatim>\<open>_build_user_pool\<close> for \<^verbatim>\<open>num_users = n\<close>.\<close>

definition build_user_pool :: "nat \<Rightarrow> (nat \<Rightarrow> user_draws) \<Rightarrow> py_error + user list" where
  "build_user_pool n draws = build_users [0..<n] draws"

subsection \<open>One event\<close>

record event_draws =
  d_user :: nat
  d_content :: nat
  d_event_type :: nat
  d_quality :: nat
  d_playback :: nat
  d_duration :: nat
  d_buffer :: nat
  d_session_id :: nat
  d_now :: datetime
  d_event_id :: nat

text \<open>\<^verbatim>\<open>QUALITY_MAP[tier]\<close>.\<close>

definition quality_options :: "pystr \<Rightarrow> py_error + (pystr \<times> nat) list" where
  "quality_options tier = (case map_of QUALITY_MAP tier of None \<Rightarrow> Inl KeyError | Some qs \<Rightarrow> Inr qs)"

text \<open>\<^verbatim>\<open>_generate_event\<close> over the pool \<open>users\<close>.\<close>

definition generate_event :: "user list \<Rightarrow> event_draws \<Rightarrow> py_error + StreamingEvent" where
  "generate_event users d =
     bind (choice users (d_user d)) (\<lambda>usr.
     bind (choice CONTENT_CATALOG (d_content d)) (\<lambda>content.
     bind (choice (map fst EVENT_WEIGHTS) (d_event_type d)) (\<lambda>etype.
     bind (quality_options (u_subscription_tier usr)) (\<lambda>options.
     bind (choice options (d_quality d)) (\<lambda>quality.
       (let playback_pos = uniform 0 (real (c_duration content)) (d_playback d);
            duration =
              (if etype \<in> {''video_stop'', ''video_complete''}
               then uniform 0 (real (c_duration content)) (d_duration d)
               else 0);
            buffer_ms =
              (if etype = ''buffer_event''
               then Some (py_round (uniform 500 15000 (d_buffer d)) 1)
               else None)
        in Inr \<lparr>event_id = str_uuid (d_event_id d),
                event_type = etype,
                user_id = u_user_id usr,
                session_id = str_uuid (d_session_id d),
                content_id = c_id content,
                content_title = c_title content,
                content_type = c_type content,
                timestamp = isoformat (d_now d),
                duration_seconds = py_round duration 2,
                playback_position_seconds = py_round playback_pos 2,
                device_type = u_device_type usr,
                device_id = u_device_id usr,
                location = u_location usr,
                quality_settings =
                  [(''resolution'', PStr (fst quality)),
                   (''bitrate_kbps'', PInt (int (snd quality))),
                   (''audio_codec'', PStr ''AAC''),
                   (''video_codec'', PStr ''H.265''),
                   (''hdr_enabled'', PBool (contains (fst quality) ''HDR''))],
                buffer_duration_ms = buffer_ms,
                error_code = None,
                profile_id = u_profile_id usr,
                subscription_tier = u_subscription_tier usr\<rparr>))))))"

text \<open>An event of a generator constructed with \<^verbatim>\<open>num_users = n\<close>.\<close>

definition generated :: "nat \<Rightarrow> (nat \<Rightarrow> user_draws) \<Rightarrow> event_draws \<Rightarrow> py_error + StreamingEvent" where
  "generated n draws d = bind (build_user_pool n draws) (\<lambda>users. generate_event users d)"

section \<open>The statements of the specification\<close>

subsection \<open>Violations, as the specification lists them\<close>

text \<open>
  A field counts as filled when the key is there and its value is true in Python's
  sense: not \<^verbatim>\<open>None\<close>, \<^verbatim>\<open>False\<close>, zero, or an empty string, list or dictionary.
\<close>

definition field_truthy :: "pydict \<Rightarrow> pystr \<Rightarrow> bool" where
  "field_truthy d k = (case map_of d k of None \<Rightarrow> False | Some v \<Rightarrow> truthy v)"

fun hashable :: "pyval \<Rightarrow> bool" where
  "hashable (PList xs) = False"
| "hashable (PDict d) = False"
| "hashable v = True"

text \<open>The value under \<open>k\<close>, if filled, can be looked up in a set.\<close>

definition field_hashable :: "pydict \<Rightarrow> pystr \<Rightarrow> bool" where
  "field_hashable d k = (case map_of d k of None \<Rightarrow> True | Some v \<Rightarrow> if truthy v then hashable v else True)"

fun is_member :: "pyval \<Rightarrow> pystr set \<Rightarrow> bool" where
  "is_member (PStr s) S = (s \<in> S)"
| "is_member v S = False"

definition enum_violation ::
  "(pyval \<Rightarrow> string) \<Rightarrow> pydict \<Rightarrow> pystr \<Rightarrow> pystr set \<Rightarrow> string \<Rightarrow> string list" where
  "enum_violation repr d k valid label =
     (case map_of d k of
        None \<Rightarrow> []
      | Some v \<Rightarrow> if truthy v \<and> \<not> is_member v valid then [label @ py_str repr v] else [])"

text \<open>
  The list of the specification: one entry per required field that is not filled, in
  the order of the fields, then the entry for \<^verbatim>\<open>event_type\<close>, then the one for
  \<^verbatim>\<open>device_type\<close>.
\<close>

definition spec_violations :: "(pyval \<Rightarrow> string) \<Rightarrow> pydict \<Rightarrow> string list" where
  "spec_violations repr d =
     map (\<lambda>f. ''missing required field: '' @ f) (filter (\<lambda>f. \<not> field_truthy d f) required_fields)
       @ enum_violation repr d ''event_type'' VALID_EVENT_TYPES ''invalid event_type: ''
       @ enum_violation repr d ''device_type'' VALID_DEVICE_TYPES ''invalid device_type: ''"

subsection \<open>UTF-8 on the strings modelled\<close>

text \<open>
  \<^verbatim>\<open>s.encode("utf-8")\<close> for a string of code points up to 255: one byte below 128,
  two bytes from 128 on.
\<close>

definition utf8_encode :: "pystr \<Rightarrow> pybytes" where
  "utf8_encode s =
     concat (map (\<lambda>c. if (of_char c :: nat) < 128 then [c]
                       else [char_of (192 + (of_char c :: nat) div 64),
                             char_of (128 + (of_char c :: nat) mod 64)]) s)"

text \<open>
  \<^verbatim>\<open>b.decode("utf-8")\<close> on the byte sequences that encode such strings. Every other
  sequence gives \<open>None\<close>; that is \<^verbatim>\<open>UnicodeDecodeError\<close> for the malformed ones (a
  sequence that encodes a code point above 255 has no string in this model).
\<close>

fun utf8_decode :: "pybytes \<Rightarrow> pystr option" where
  "utf8_decode [] = Some []"
| "utf8_decode [b] = (if (of_char b :: nat) < 128 then Some [b] else None)"
| "utf8_decode (b # c # rest) =
     (if (of_char b :: nat) < 128 then map_option ((#) b) (utf8_decode (c # rest))
      else if ((of_char b :: nat) = 194 \<or> (of_char b :: nat) = 195)
              \<and> 128 \<le> (of_char c :: nat) \<and> (of_char c :: nat) < 192
      then map_option ((#) (char_of (((of_char b :: nat) - 192) * 64 + ((of_char c :: nat) - 128))))
             (utf8_decode rest)
      else None)"

subsection \<open>A concrete environment\<close>

text \<open>
  The closed examples below run the functions in one environment. Its library
  functions are tables of what Python returns on the inputs the examples use:
  \<^verbatim>\<open>json.loads\<close> on three texts (anything else is taken as malformed, as
  \<^verbatim>\<open>not json\<close> is), \<^verbatim>\<open>datetime.fromisoformat\<close> on one timestamp (anything else is taken
  as unparseable, as \<^verbatim>\<open>not-a-timestamp\<close> is). The clock is fixed, the dead-letter hub
  is configured and accepts every message, and every upsert succeeds.
\<close>

definition demo_event :: pydict where
  "demo_event =
     [(''event_id'', PStr ''e1''),
      (''event_type'', PStr ''video_start''),
      (''user_id'', PStr ''U0000001''),
      (''content_id'', PStr ''NF001''),
      (''timestamp'', PStr ''2025-01-15T14:30:00Z'')]"

definition demo_event_json :: pystr where
  \<open>demo_event_json =
     ''{"event_id": "e1", "event_type": "video_start", "user_id": "U0000001", "content_id": "NF001", "timestamp": "2025-01-15T14:30:00Z"}''\<close>

definition demo_json_loads :: "pystr \<Rightarrow> pyval option" where
  "demo_json_loads s =
     (if s = demo_event_json then Some (PDict demo_event)
      else if s = ''{}'' then Some (PDict [])
      else if s = ''42'' then Some (PInt 42)
      else None)"

definition demo_parsed :: datetime where
  "demo_parsed =
     \<lparr>dt_year = 2025, dt_month = 1, dt_day = 15, dt_hour = 14, dt_minute = 30,
      dt_second = 0, dt_microsecond = 0, dt_utcoffset = Some 0\<rparr>"

definition demo_fromisoformat :: "pystr \<Rightarrow> datetime option" where
  "demo_fromisoformat s =
     (if s = ''2025-01-15T14:30:00+00:00'' then Some demo_parsed else None)"

definition demo_now :: datetime where
  "demo_now =
     \<lparr>dt_year = 2025, dt_month = 1, dt_day = 15, dt_hour = 15, dt_minute = 0,
      dt_second = 0, dt_microsecond = 0, dt_utcoffset = Some 0\<rparr>"

definition demo_env :: env where
  "demo_env =
     \<lparr>decode_utf8 = utf8_decode,
      json_loads = demo_json_loads,
      json_dumps = (\<lambda>v. demo_event_json),
      float_repr = (\<lambda>v. []),
      fromisoformat = demo_fromisoformat,
      now_utc = (\<lambda>i. demo_now),
      uuid4 = (\<lambda>i. i),
      dlq_producer = True,
      send_batch = (\<lambda>i m. Sent),
      upsert_item = (\<lambda>i v. Upserted)\<rparr>"

text \<open>The valid event, with epoch seconds in place of the ISO-8601 string.\<close>

definition numeric_timestamp_event :: pydict where
  "numeric_timestamp_event =
     [(''event_id'', PStr ''e1''),
      (''event_type'', PStr ''video_start''),
      (''user_id'', PStr ''U0000001''),
      (''content_id'', PStr ''NF001''),
      (''timestamp'', PInt 1736951400)]"

text \<open>
  An event that is invalid because its \<^verbatim>\<open>event_type\<close> is a list, its JSON text, and
  the environment whose \<^verbatim>\<open>json.loads\<close> knows that text as well.
\<close>

definition list_type_event :: pydict where
  "list_type_event =
     [(''event_id'', PStr ''e1''),
      (''event_type'', PList [PStr ''video_start'']),
      (''user_id'', PStr ''U0000001''),
      (''content_id'', PStr ''NF001''),
      (''timestamp'', PStr ''2025-01-15T14:30:00Z'')]"

definition list_type_json :: pystr where
  \<open>list_type_json =
     ''{"event_id": "e1", "event_type": ["video_start"], "user_id": "U0000001", "content_id": "NF001", "timestamp": "2025-01-15T14:30:00Z"}''\<close>

definition list_type_env :: env where
  "list_type_env =
     demo_env\<lparr>json_loads :=
                (\<lambda>s. if s = list_type_json then Some (PDict list_type_event)
                     else demo_json_loads s)\<rparr>"


definition empty_world :: world where
  "empty_world = \<lparr>dlq_hub = [], cosmos = [], logs = []\<rparr>"

subsection \<open>Enrichment\<close>

text \<open>The four fields \<^verbatim>\<open>_enrich_event\<close> assigns.\<close>

definition enriched_fields :: "pystr set" where
  "enriched_fields = {''id'', ''processed_at'', ''processing_version'', ''hour_bucket''}"

text \<open>A timestamp the \<^verbatim>\<open>try\<close> block can handle: no key, or a string.\<close>

fun str_or_absent :: "pyval option \<Rightarrow> bool" where
  "str_or_absent None = True"
| "str_or_absent (Some (PStr s)) = True"
| "str_or_absent (Some v) = False"

subsection \<open>The outcome of one batch item\<close>

text \<open>
  The four outcomes the specification gives an item. \<open>item_outcome\<close> follows the
  branches of the loop body; an exception that no handler of the loop catches is
  the left summand.
\<close>

datatype outcome = Persisted | DecodeFailed | ValidationRejected | PersistFailed

definition item_outcome :: "env \<Rightarrow> nat \<Rightarrow> pybytes \<Rightarrow> py_error + outcome" where
  "item_outcome env i body =
     (case decode_utf8 env body of
        None \<Rightarrow> Inl UnicodeDecodeError
      | Some raw_body \<Rightarrow>
          (case json_loads env raw_body of
             None \<Rightarrow> Inr DecodeFailed
           | Some data \<Rightarrow>
               (case validate_event (float_repr env) data of
                  Inl e \<Rightarrow> Inl e
                | Inr violations \<Rightarrow>
                    if violations \<noteq> [] then Inr ValidationRejected
                    else (case enrich_event env i data of
                            Inl e \<Rightarrow> Inl e
                          | Inr enriched \<Rightarrow>
                              (case upsert_item env i enriched of
                                 Upserted \<Rightarrow> Inr Persisted
                               | CosmosHttpResponseError \<Rightarrow> Inr PersistFailed
                               | OtherException \<Rightarrow> Inr PersistFailed)))))"

text \<open>The outcomes of the items of a batch, the first item being at position \<open>i\<close>.\<close>

fun outcomes_from :: "env \<Rightarrow> nat \<Rightarrow> pybytes list \<Rightarrow> (py_error + outcome) list" where
  "outcomes_from env i [] = []"
| "outcomes_from env i (body # rest) = item_outcome env i body # outcomes_from env (Suc i) rest"

text \<open>How many items of a batch end in a given outcome.\<close>

definition count_outcome :: "outcome \<Rightarrow> env \<Rightarrow> pybytes list \<Rightarrow> nat" where
  "count_outcome oc env events = length (filter (\<lambda>r. r = Inr oc) (outcomes_from env 0 events))"

text \<open>The envelope \<^verbatim>\<open>_send_to_dlq\<close> builds for item \<open>i\<close>.\<close>

definition dlq_envelope :: "env \<Rightarrow> nat \<Rightarrow> pystr \<Rightarrow> string list \<Rightarrow> envelope" where
  "dlq_envelope env i raw_body errors =
     \<lparr>original_event = take 8192 raw_body,
      validation_errors = errors,
      rejected_at = isoformat (now_utc env i)\<rparr>"

subsection \<open>Generated events\<close>

text \<open>The resolutions the specification gives each subscription tier.\<close>

definition tier_resolutions :: "pystr \<Rightarrow> pystr set" where
  "tier_resolutions tier =
     (if tier = ''basic'' then {''480p''}
      else if tier = ''standard'' then {''720p'', ''1080p''}
      else if tier = ''premium'' then {''1080p'', ''4K'', ''4K_HDR''}
      else {})"


text \<open>Draws for the examples: every draw is zero, so every choice is the first element.\<close>

definition zero_user_draws :: "nat \<Rightarrow> user_draws" where
  "zero_user_draws i = \<lparr>ud_tier = 0, ud_profile = 0, ud_device = 0, ud_device_id = 0, ud_location = 0\<rparr>"

definition zero_draws :: event_draws where
  "zero_draws =
     \<lparr>d_user = 0, d_content = 0, d_event_type = 0, d_quality = 0, d_playback = 0,
      d_duration = 0, d_buffer = 0, d_session_id = 0, d_now = demo_now, d_event_id = 0\<rparr>"

text \<open>The same draws, with the fifth event type: a buffer event.\<close>

definition buffer_draws :: event_draws where
  "buffer_draws = zero_draws\<lparr>d_event_type := 4\<rparr>"

text \<open>A user as \<^verbatim>\<open>_build_user_pool\<close> makes them, in a pool of \<open>n\<close>.\<close>

definition pool_user :: "nat \<Rightarrow> user \<Rightarrow> bool" where
  "pool_user n u \<longleftrightarrow>
     (\<exists>i<n. u_user_id u = ''U'' @ zpad 7 i)
     \<and> u_subscription_tier u \<in> set SUBSCRIPTION_TIERS
     \<and> u_device_type u \<in> VALID_DEVICE_TYPES"




section \<open>Properties\<close>

declare str_nat.simps [simp del]

subsection \<open>The validator\<close>

lemma missing_loop_dict:
  "missing_loop (PDict d) fs errs =
     Inr (errs @ map (\<lambda>f. ''missing required field: '' @ f) (filter (\<lambda>f. \<not> field_truthy d f) fs))"
  by (induction fs arbitrary: errs) (auto simp: field_truthy_def split: option.splits)

lemma enum_check_dict:
  "field_hashable d k \<Longrightarrow>
   enum_check repr (PDict d) k valid label errs = Inr (errs @ enum_violation repr d k valid label)"
  unfolding enum_check_def enum_violation_def field_hashable_def
  apply (cases "map_of d k")
   apply simp
  subgoal for v by (cases v) (auto split: if_splits)
  done

lemma validate_event_dict:
  "field_hashable d ''event_type'' \<Longrightarrow> field_hashable d ''device_type'' \<Longrightarrow>
   validate_event repr (PDict d) = Inr (spec_violations repr d)"
  by (simp add: validate_event_def spec_violations_def missing_loop_dict enum_check_dict)

lemma distinct_missing:
  "distinct (map ((@) p) (filter P required_fields))"
  by (simp add: distinct_map required_fields_def inj_on_def)

lemma distinct_spec_violations: "distinct (spec_violations repr d)"
proof -
  let ?m = "map ((@) ''missing required field: '') (filter (\<lambda>f. \<not> field_truthy d f) required_fields)"
  let ?e = "enum_violation repr d ''event_type'' VALID_EVENT_TYPES ''invalid event_type: ''"
  let ?v = "enum_violation repr d ''device_type'' VALID_DEVICE_TYPES ''invalid device_type: ''"
  have m: "distinct ?m" by (rule distinct_missing)
  have e: "distinct ?e" and v: "distinct ?v"
    by (auto simp: enum_violation_def split: option.splits)
  have me: "set ?m \<inter> set ?e = {}" and mv: "set ?m \<inter> set ?v = {}" and ev: "set ?e \<inter> set ?v = {}"
    by (auto simp: enum_violation_def split: option.splits if_splits)
  have "distinct (?m @ ?e @ ?v)"
    using m e v me mv ev by (simp only: distinct_append set_append) blast
  then show ?thesis unfolding spec_violations_def .
qed

lemma spec_violations_empty:
  "spec_violations repr d = [] \<longleftrightarrow>
     (\<forall>f\<in>set required_fields. field_truthy d f) \<and>
     enum_violation repr d ''event_type'' VALID_EVENT_TYPES ''invalid event_type: '' = [] \<and>
     enum_violation repr d ''device_type'' VALID_DEVICE_TYPES ''invalid device_type: '' = []"
  by (auto simp: spec_violations_def filter_empty_conv)

text \<open>
  C2, as amended. For every decoded payload map whose \<^verbatim>\<open>event_type\<close> and
  \<^verbatim>\<open>device_type\<close>, when filled, are not a list or a dictionary, the validator returns
  exactly: for each of \<^verbatim>\<open>event_id\<close>, \<^verbatim>\<open>event_type\<close>, \<^verbatim>\<open>user_id\<close>, \<^verbatim>\<open>content_id\<close>,
  \<^verbatim>\<open>timestamp\<close>, in that order, that is absent or false in Python's sense,
  \<^verbatim>\<open>missing required field: <name>\<close>; then \<^verbatim>\<open>invalid event_type: <value>\<close> if
  \<^verbatim>\<open>event_type\<close> is filled and not one of the five event types; then
  \<^verbatim>\<open>invalid device_type: <value>\<close> if \<^verbatim>\<open>device_type\<close> is filled and not one of the six
  device types. No entry occurs twice, and the list is empty exactly when none of
  the violations occurs.
\<close>

theorem validator_lists_violations:
  assumes "field_hashable d ''event_type''" and "field_hashable d ''device_type''"
  shows "validate_event repr (PDict d) = Inr (spec_violations repr d)
       \<and> distinct (spec_violations repr d)
       \<and> (spec_violations repr d = [] \<longleftrightarrow>
            (\<forall>f\<in>set required_fields. field_truthy d f)
            \<and> enum_violation repr d ''event_type'' VALID_EVENT_TYPES ''invalid event_type: '' = []
            \<and> enum_violation repr d ''device_type'' VALID_DEVICE_TYPES ''invalid device_type: '' = [])"
  using assms validate_event_dict distinct_spec_violations spec_violations_empty by blast

text \<open>
  The theorem at a payload with two fields absent, a zero timestamp and both
  enumerations violated.
\<close>

theorem validator_lists_violations_witness:
  "validate_event (float_repr demo_env)
     (PDict [(''event_type'', PStr ''video_explode''), (''user_id'', PStr ''U0000001''),
             (''timestamp'', PInt 0), (''device_type'', PStr ''toaster'')])
   = Inr [''missing required field: event_id'', ''missing required field: content_id'',
          ''missing required field: timestamp'', ''invalid event_type: video_explode'',
          ''invalid device_type: toaster'']"
  using validator_lists_violations [of
      "[(''event_type'', PStr ''video_explode''), (''user_id'', PStr ''U0000001''),
        (''timestamp'', PInt 0), (''device_type'', PStr ''toaster'')]" "float_repr demo_env"]
  by (simp add: field_hashable_def spec_violations_def enum_violation_def field_truthy_def
      required_fields_def VALID_EVENT_TYPES_def VALID_DEVICE_TYPES_def)

text \<open>
  C2 as stated fails: in this payload \<^verbatim>\<open>device_type\<close> is present and is not one of
  the six device types, yet no violation is returned, because the check is guarded
  by the truth value of the field and the empty string is false.
\<close>

theorem empty_device_type_not_reported:
  "validate_event (float_repr demo_env) (PDict (demo_event @ [(''device_type'', PStr [])])) = Inr []
   \<and> map_of (demo_event @ [(''device_type'', PStr [])]) ''device_type'' = Some (PStr [])
   \<and> [] \<notin> VALID_DEVICE_TYPES"
  by (simp add: validate_event_def enum_check_def demo_event_def required_fields_def
      VALID_EVENT_TYPES_def VALID_DEVICE_TYPES_def)

text \<open>
  Outside the hypothesis of the theorem the validator does not return: the
  membership test hashes the value, and a list cannot be hashed.
\<close>

lemma validate_event_unhashable:
  "validate_event repr (PDict [(''event_type'', PList [PStr ''video_start''])]) = Inl TypeError"
  by (simp add: validate_event_def enum_check_def required_fields_def)

subsection \<open>Enrichment\<close>

lemma map_of_dict_set: "map_of (dict_set d k v) = (map_of d)(k \<mapsto> v)"
  by (induction d k v rule: dict_set.induct) (auto simp: fun_eq_iff)

lemma keys_dict_set: "fst ` set (dict_set d k v) = insert k (fst ` set d)"
  by (induction d k v rule: dict_set.induct) auto

lemma hour_bucket_total:
  "str_or_absent t \<Longrightarrow> \<exists>b. hour_bucket parse t = Inr b"
  by (cases "(parse, t)" rule: hour_bucket.cases) (auto split: option.splits)

lemma hour_bucket_not_str:
  "\<not> str_or_absent t \<Longrightarrow> hour_bucket parse t = Inl AttributeError"
  by (cases "(parse, t)" rule: hour_bucket.cases) auto

lemma isoformat_demo_now: "isoformat demo_now = ''2025-01-15T15:00:00+00:00''"
  by code_simp

lemma strftime_hour_demo: "strftime_hour demo_parsed = ''2025-01-15T14:00:00Z''"
  by code_simp

lemma replace_Z_demo: "replace_Z ''2025-01-15T14:30:00Z'' = ''2025-01-15T14:30:00+00:00''"
  by (simp add: replace_Z_def)

text \<open>
  What holds of C3: a timestamp string that parses gives the hour bucket, formatted
  from the fields of the parsed value; one that does not parse gives \<^verbatim>\<open>None\<close>; and
  the function raises exactly when the timestamp is there and is not a string.
\<close>

lemma enrich_hour_bucket_parsed:
  assumes "map_of d ''timestamp'' = Some (PStr s)" and "fromisoformat env (replace_Z s) = Some ts"
  shows "\<exists>d'. enrich_event env i (PDict d) = Inr (PDict d')
           \<and> map_of d' ''hour_bucket'' = Some (PStr (strftime_hour ts))"
  using assms by (simp add: Let_def map_of_dict_set)

lemma enrich_hour_bucket_unparsed:
  assumes "map_of d ''timestamp'' = Some (PStr s)" and "fromisoformat env (replace_Z s) = None"
  shows "\<exists>d'. enrich_event env i (PDict d) = Inr (PDict d')
           \<and> map_of d' ''hour_bucket'' = Some PNone"
  using assms by (simp add: Let_def map_of_dict_set)

lemma enrich_event_returns:
  assumes "str_or_absent (map_of d ''timestamp'')"
  shows "\<exists>d'. enrich_event env i (PDict d) = Inr (PDict d')"
proof -
  from assms obtain b where "hour_bucket (fromisoformat env) (map_of d ''timestamp'') = Inr b"
    using hour_bucket_total by blast
  then show ?thesis by (simp add: Let_def map_of_dict_set)
qed

lemma enrich_raises_iff:
  "(enrich_event env i (PDict d) = Inl AttributeError) = (\<not> str_or_absent (map_of d ''timestamp''))"
proof (cases "str_or_absent (map_of d ''timestamp'')")
  case True
  then obtain b where "hour_bucket (fromisoformat env) (map_of d ''timestamp'') = Inr b"
    using hour_bucket_total by blast
  with True show ?thesis by (simp add: Let_def map_of_dict_set)
next
  case False
  then show ?thesis by (simp add: Let_def map_of_dict_set hour_bucket_not_str)
qed

text \<open>
  C3 fails on the code. The payload below has every required field and a number as
  its \<^verbatim>\<open>timestamp\<close>: the validator accepts it (the value is true), and it is
  malformed as a timestamp. \<^verbatim>\<open>event["timestamp"].replace\<close> then raises
  \<^verbatim>\<open>AttributeError\<close>, which the handler for \<^verbatim>\<open>(ValueError, KeyError)\<close> does not
  catch: the enricher raises instead of setting \<^verbatim>\<open>hour_bucket\<close> to \<^verbatim>\<open>None\<close>.
\<close>

theorem enrich_raises_on_numeric_timestamp:
  "validate_event repr (PDict numeric_timestamp_event) = Inr []
   \<and> enrich_event env i (PDict numeric_timestamp_event) = Inl AttributeError"
  by (simp add: numeric_timestamp_event_def validate_event_def enum_check_def required_fields_def
      VALID_EVENT_TYPES_def Let_def)

text \<open>
  C4, as amended. For every payload whose \<^verbatim>\<open>timestamp\<close> is absent or a string,
  \<^verbatim>\<open>enrich\<close> returns; the keys of the result are the keys of the input together with
  \<^verbatim>\<open>id\<close>, \<^verbatim>\<open>processed_at\<close>, \<^verbatim>\<open>processing_version\<close> and \<^verbatim>\<open>hour_bucket\<close>; every field
  other than these four keeps its value; \<^verbatim>\<open>id\<close> is the input's \<^verbatim>\<open>event_id\<close> when the
  key is present and a fresh UUID otherwise; \<^verbatim>\<open>processed_at\<close> is the time of the call
  and \<^verbatim>\<open>processing_version\<close> is \<^verbatim>\<open>1.0.0\<close>.
\<close>

theorem enrich_adds_four_fields:
  assumes "str_or_absent (map_of d ''timestamp'')"
  shows "\<exists>d'. enrich_event env i (PDict d) = Inr (PDict d')
           \<and> fst ` set d' = fst ` set d \<union> enriched_fields
           \<and> (\<forall>k. k \<notin> enriched_fields \<longrightarrow> map_of d' k = map_of d k)
           \<and> map_of d' ''id'' =
               Some (case map_of d ''event_id'' of
                       None \<Rightarrow> PStr (str_uuid (uuid4 env i))
                     | Some v \<Rightarrow> v)
           \<and> map_of d' ''processed_at'' = Some (PStr (isoformat (now_utc env i)))
           \<and> map_of d' ''processing_version'' = Some (PStr ''1.0.0'')"
proof -
  let ?d3 = "dict_set (dict_set (dict_set d ''id''
                 (case map_of d ''event_id'' of
                    None \<Rightarrow> PStr (str_uuid (uuid4 env i))
                  | Some v \<Rightarrow> v)) ''processed_at'' (PStr (isoformat (now_utc env i))))
                 ''processing_version'' (PStr ''1.0.0'')"
  have ts: "map_of ?d3 ''timestamp'' = map_of d ''timestamp''"
    by (simp add: map_of_dict_set)
  from assms obtain b where b: "hour_bucket (fromisoformat env) (map_of ?d3 ''timestamp'') = Inr b"
    using hour_bucket_total ts by metis
  have run: "enrich_event env i (PDict d) = Inr (PDict (dict_set ?d3 ''hour_bucket'' b))"
    using b by (simp add: Let_def)
  show ?thesis
    unfolding run
    by (rule exI [of _ "dict_set ?d3 ''hour_bucket'' b"])
       (auto simp: map_of_dict_set keys_dict_set enriched_fields_def)
qed

text \<open>The theorem at the valid event of the examples: the four fields go last.\<close>

theorem enrich_adds_four_fields_witness:
  "enrich_event demo_env 0 (PDict demo_event)
   = Inr (PDict (demo_event @
        [(''id'', PStr ''e1''),
         (''processed_at'', PStr ''2025-01-15T15:00:00+00:00''),
         (''processing_version'', PStr ''1.0.0''),
         (''hour_bucket'', PStr ''2025-01-15T14:00:00Z'')]))"
proof -
  have h: "str_or_absent (map_of demo_event ''timestamp'')"
    by (simp add: demo_event_def)
  have run: "enrich_event demo_env 0 (PDict demo_event)
      = Inr (PDict (demo_event @
          [(''id'', PStr ''e1''),
           (''processed_at'', PStr ''2025-01-15T15:00:00+00:00''),
           (''processing_version'', PStr ''1.0.0''),
           (''hour_bucket'', PStr ''2025-01-15T14:00:00Z'')]))"
    by (simp add: demo_event_def demo_env_def demo_fromisoformat_def isoformat_demo_now
        strftime_hour_demo replace_Z_demo Let_def)
  from enrich_adds_four_fields [OF h, of demo_env 0] run show ?thesis by simp
qed

text \<open>
  C4 as stated fails: a payload that already has an \<^verbatim>\<open>id\<close> does not keep it. The
  value \<^verbatim>\<open>legacy\<close> is replaced by the value of \<^verbatim>\<open>event_id\<close>.
\<close>

theorem enrich_overwrites_id:
  "enrich_event demo_env 0 (PDict [(''event_id'', PStr ''e1''), (''id'', PStr ''legacy'')])
   = Inr (PDict [(''event_id'', PStr ''e1''), (''id'', PStr ''e1''),
                 (''processed_at'', PStr ''2025-01-15T15:00:00+00:00''),
                 (''processing_version'', PStr ''1.0.0''),
                 (''hour_bucket'', PNone)])"
  by (simp add: demo_env_def isoformat_demo_now Let_def)

subsection \<open>Dead-letter routing\<close>

lemma send_to_dlq_unconfigured:
  "\<not> dlq_producer env \<Longrightarrow> send_to_dlq env i raw errs w = Inr (log_event DlqNotConfigured w)"
  by (simp add: send_to_dlq_def)

lemma send_to_dlq_sent:
  "dlq_producer env \<Longrightarrow> send_batch env i (dlq_envelope env i raw errs) = Sent \<Longrightarrow>
   send_to_dlq env i raw errs w
     = Inr (log_event DlqSent (w\<lparr>dlq_hub := dlq_hub w @ [dlq_envelope env i raw errs]\<rparr>))"
  by (simp add: send_to_dlq_def dlq_try_def dlq_envelope_def Let_def)

lemma send_to_dlq_raised:
  "dlq_producer env \<Longrightarrow> send_batch env i (dlq_envelope env i raw errs) = SendRaised \<Longrightarrow>
   send_to_dlq env i raw errs w = Inr (log_event DlqSendFailed w)"
  by (simp add: send_to_dlq_def dlq_try_def dlq_envelope_def Let_def)

lemma send_to_dlq_total:
  "\<exists>w'. send_to_dlq env i raw errs w = Inr w' \<and> cosmos w' = cosmos w"
proof (cases "dlq_producer env")
  case False
  then show ?thesis by (simp add: send_to_dlq_unconfigured log_event_def)
next
  case True
  then show ?thesis
    by (cases "send_batch env i (dlq_envelope env i raw errs)")
       (simp_all add: send_to_dlq_sent send_to_dlq_raised log_event_def)
qed

lemma utf8_encode_ascii:
  "\<forall>c\<in>set s. (of_char c :: nat) < 128 \<Longrightarrow> utf8_encode s = s"
  by (induction s) (simp_all add: utf8_encode_def)

lemma utf8_encode_two_bytes:
  "128 \<le> (of_char c :: nat) \<Longrightarrow> length (utf8_encode (replicate n c)) = 2 * n"
  by (induction n) (simp_all add: utf8_encode_def)

text \<open>
  C7, as amended. \<^verbatim>\<open>send_to_dlq\<close> is best-effort: with no sink configured it logs a
  warning, changes nothing else and returns; with a sink it sends the envelope, whose
  \<^verbatim>\<open>original_event\<close> is the first 8192 characters of the raw payload (at most 8192
  code points, and at most 8192 bytes when the payload is ASCII); a failure while
  sending is logged as an error and does not leave the function, which returns in
  every case.
\<close>

theorem dead_letter_best_effort:
  "(\<not> dlq_producer env \<longrightarrow>
      send_to_dlq env i raw errs w = Inr (log_event DlqNotConfigured w))
   \<and> (dlq_producer env \<and> send_batch env i (dlq_envelope env i raw errs) = Sent \<longrightarrow>
      send_to_dlq env i raw errs w
        = Inr (log_event DlqSent (w\<lparr>dlq_hub := dlq_hub w @ [dlq_envelope env i raw errs]\<rparr>)))
   \<and> (dlq_producer env \<and> send_batch env i (dlq_envelope env i raw errs) = SendRaised \<longrightarrow>
      send_to_dlq env i raw errs w = Inr (log_event DlqSendFailed w))
   \<and> (\<exists>w'. send_to_dlq env i raw errs w = Inr w')
   \<and> level_of DlqNotConfigured = WARNING \<and> level_of DlqSendFailed = ERROR
   \<and> original_event (dlq_envelope env i raw errs) = take 8192 raw
   \<and> validation_errors (dlq_envelope env i raw errs) = errs
   \<and> length (original_event (dlq_envelope env i raw errs)) \<le> 8192
   \<and> ((\<forall>c\<in>set raw. (of_char c :: nat) < 128) \<longrightarrow>
        length (utf8_encode (original_event (dlq_envelope env i raw errs))) \<le> 8192)"
proof -
  have ascii: "(\<forall>c\<in>set raw. (of_char c :: nat) < 128) \<longrightarrow>
        length (utf8_encode (original_event (dlq_envelope env i raw errs))) \<le> 8192"
  proof
    assume a: "\<forall>c\<in>set raw. (of_char c :: nat) < 128"
    then have "\<forall>c\<in>set (take 8192 raw). (of_char c :: nat) < 128"
      by (meson in_set_takeD)
    then show "length (utf8_encode (original_event (dlq_envelope env i raw errs))) \<le> 8192"
      by (simp add: dlq_envelope_def utf8_encode_ascii)
  qed
  show ?thesis
    using send_to_dlq_unconfigured send_to_dlq_sent send_to_dlq_raised
      send_to_dlq_total [of env i raw errs w] ascii
    by (auto simp: dlq_envelope_def)
qed

text \<open>The theorem with the sink configured and accepting the message.\<close>

theorem dead_letter_best_effort_witness:
  "send_to_dlq demo_env 0 ''not json'' [''invalid JSON''] empty_world
   = Inr \<lparr>dlq_hub = [\<lparr>original_event = ''not json'', validation_errors = [''invalid JSON''],
                        rejected_at = ''2025-01-15T15:00:00+00:00''\<rparr>],
          cosmos = [], logs = [DlqSent]\<rparr>"
proof -
  have p: "dlq_producer demo_env" by (simp add: demo_env_def)
  have s: "send_batch demo_env 0 (dlq_envelope demo_env 0 ''not json'' [''invalid JSON'']) = Sent"
    by (simp add: demo_env_def)
  note iso = isoformat_demo_now
  have e: "dlq_envelope demo_env 0 ''not json'' [''invalid JSON'']
      = \<lparr>original_event = ''not json'', validation_errors = [''invalid JSON''],
                        rejected_at = ''2025-01-15T15:00:00+00:00''\<rparr>"
    by (simp add: dlq_envelope_def demo_env_def iso)
  from dead_letter_best_effort [of demo_env 0 "''not json''" "[''invalid JSON'']" empty_world] p s
  show ?thesis by (simp add: e empty_world_def log_event_def)
qed

text \<open>
  C7 as stated fails on the bytes: a payload of 25000 times the character U+00E9 is
  50000 bytes of UTF-8, and the \<^verbatim>\<open>original_event\<close> sent is 8192 characters, which are
  16384 bytes.
\<close>

theorem truncated_payload_exceeds_8192_bytes:
  "length (utf8_encode (replicate 25000 (CHR 0xE9))) = 50000
   \<and> send_to_dlq demo_env 0 (replicate 25000 (CHR 0xE9)) [''invalid JSON''] empty_world
     = Inr \<lparr>dlq_hub = [\<lparr>original_event = replicate 8192 (CHR 0xE9),
                          validation_errors = [''invalid JSON''],
                          rejected_at = ''2025-01-15T15:00:00+00:00''\<rparr>],
            cosmos = [], logs = [DlqSent]\<rparr>
   \<and> length (utf8_encode (replicate 8192 (CHR 0xE9))) = 16384"
proof -
  note iso = isoformat_demo_now
  have c: "128 \<le> (of_char (CHR 0xE9) :: nat)" by simp
  show ?thesis
    using utf8_encode_two_bytes [OF c, of 25000] utf8_encode_two_bytes [OF c, of 8192]
    by (simp add: send_to_dlq_def dlq_try_def demo_env_def Let_def iso empty_world_def log_event_def)
qed

subsection \<open>The batch processor\<close>

lemma process_item_raises:
  "item_outcome env i body = Inl e \<Longrightarrow> process_item env i body st = Inl e"
  by (auto simp: item_outcome_def process_item_def
      split: option.splits sum.splits if_splits upsert_result.splits)

lemma send_to_dlq_never_raises: "send_to_dlq env i raw errs w \<noteq> Inl e"
  using send_to_dlq_total [of env i raw errs w] by auto

lemma process_item_counts:
  assumes "item_outcome env i body = Inr oc"
  shows "\<exists>st'. process_item env i body st = Inr st'
           \<and> success_count st' = success_count st + (if oc = Persisted then 1 else 0)
           \<and> error_count st' = error_count st + (if oc = Persisted then 0 else 1)"
  using assms
  unfolding item_outcome_def process_item_def
  by (auto simp: send_to_dlq_never_raises
      split: option.splits sum.splits if_splits upsert_result.splits)

lemma length_outcomes_from: "length (outcomes_from env i bodies) = length bodies"
  by (induction bodies arbitrary: i) auto

lemma main_loop_raises:
  "main_loop env i bodies st = Inr st' \<Longrightarrow> \<forall>r\<in>set (outcomes_from env i bodies). \<exists>oc. r = Inr oc"
proof (induction bodies arbitrary: i st)
  case Nil
  then show ?case by simp
next
  case (Cons body rest)
  show ?case
  proof (cases "item_outcome env i body")
    case (Inl e)
    then have "process_item env i body st = Inl e" by (rule process_item_raises)
    with Cons.prems show ?thesis by simp
  next
    case (Inr oc)
    then obtain st1 where st1: "process_item env i body st = Inr st1"
      using process_item_counts by blast
    with Cons.prems have "main_loop env (Suc i) rest st1 = Inr st'" by simp
    then have "\<forall>r\<in>set (outcomes_from env (Suc i) rest). \<exists>oc. r = Inr oc"
      by (rule Cons.IH)
    with Inr show ?thesis by simp
  qed
qed

lemma main_loop_counts:
  "\<forall>r\<in>set (outcomes_from env i bodies). \<exists>oc. r = Inr oc \<Longrightarrow>
   \<exists>st'. main_loop env i bodies st = Inr st'
     \<and> success_count st' = success_count st
          + length (filter (\<lambda>r. r = Inr Persisted) (outcomes_from env i bodies))
     \<and> error_count st' = error_count st
          + length (filter (\<lambda>r. r \<noteq> Inr Persisted) (outcomes_from env i bodies))"
proof (induction bodies arbitrary: i st)
  case Nil
  then show ?case by simp
next
  case (Cons body rest)
  from Cons.prems obtain oc where oc: "item_outcome env i body = Inr oc" by auto
  from process_item_counts [OF oc, of st] obtain st1 where
    st1: "process_item env i body st = Inr st1"
    and s1: "success_count st1 = success_count st + (if oc = Persisted then 1 else 0)"
    and e1: "error_count st1 = error_count st + (if oc = Persisted then 0 else 1)"
    by blast
  from Cons.prems have "\<forall>r\<in>set (outcomes_from env (Suc i) rest). \<exists>oc. r = Inr oc" by simp
  from Cons.IH [OF this, of st1] obtain st' where
    run: "main_loop env (Suc i) rest st1 = Inr st'"
    and s: "success_count st' = success_count st1
          + length (filter (\<lambda>r. r = Inr Persisted) (outcomes_from env (Suc i) rest))"
    and e: "error_count st' = error_count st1
          + length (filter (\<lambda>r. r \<noteq> Inr Persisted) (outcomes_from env (Suc i) rest))"
    by blast
  show ?case
    using st1 run s e s1 e1 oc by simp
qed

lemma count_not_persisted:
  "\<forall>r\<in>set rs. \<exists>oc. r = Inr oc \<Longrightarrow>
   length (filter (\<lambda>r. r \<noteq> Inr Persisted) rs)
     = length (filter (\<lambda>r. r = Inr DecodeFailed) rs)
     + length (filter (\<lambda>r. r = Inr ValidationRejected) rs)
     + length (filter (\<lambda>r. r = Inr PersistFailed) rs)"
proof (induction rs)
  case Nil
  then show ?case by simp
next
  case (Cons r rs)
  then obtain oc where "r = Inr oc" by auto
  with Cons show ?case by (cases oc) auto
qed

lemma main_returns:
  assumes "\<forall>r\<in>set (outcomes_from env 0 events). \<exists>oc. r = Inr oc"
  shows "\<exists>st. main env events w = Inr st
           \<and> success_count st = count_outcome Persisted env events
           \<and> error_count st = length (filter (\<lambda>r. r \<noteq> Inr Persisted) (outcomes_from env 0 events))
           \<and> logs (outside st) \<noteq> []
           \<and> last (logs (outside st))
               = BatchComplete (success_count st) (error_count st) (length events)"
proof -
  let ?st0 = "\<lparr>success_count = 0, error_count = 0,
               outside = log_event (ReceivedBatch (length events)) w\<rparr>"
  from main_loop_counts [OF assms, of ?st0] obtain st' where
    run: "main_loop env 0 events ?st0 = Inr st'"
    and s: "success_count st' = length (filter (\<lambda>r. r = Inr Persisted) (outcomes_from env 0 events))"
    and e: "error_count st' = length (filter (\<lambda>r. r \<noteq> Inr Persisted) (outcomes_from env 0 events))"
    by auto
  show ?thesis
    using run s e by (simp add: main_def count_outcome_def log_event_def)
qed

lemma main_sum:
  assumes "main env events w = Inr st"
  shows "success_count st + error_count st = length events"
proof -
  let ?st0 = "\<lparr>success_count = 0, error_count = 0,
               outside = log_event (ReceivedBatch (length events)) w\<rparr>"
  from assms obtain st' where run: "main_loop env 0 events ?st0 = Inr st'"
    by (auto simp: main_def split: sum.splits)
  then have all: "\<forall>r\<in>set (outcomes_from env 0 events). \<exists>oc. r = Inr oc"
    by (rule main_loop_raises)
  from main_returns [OF all, of w] assms
  have "success_count st = length (filter (\<lambda>r. r = Inr Persisted) (outcomes_from env 0 events))"
    and "error_count st = length (filter (\<lambda>r. r \<noteq> Inr Persisted) (outcomes_from env 0 events))"
    by (auto simp: count_outcome_def)
  then show ?thesis
    using sum_length_filter_compl [of "\<lambda>r. r = Inr Persisted" "outcomes_from env 0 events"]
    by (simp add: length_outcomes_from)
qed

lemma item_outcome_rejected_iff:
  "item_outcome env i body = Inr ValidationRejected \<longleftrightarrow>
     (\<exists>raw data errs. decode_utf8 env body = Some raw \<and> json_loads env raw = Some data
        \<and> validate_event (float_repr env) data = Inr errs \<and> errs \<noteq> [])"
  by (auto simp: item_outcome_def split: option.splits sum.splits if_splits upsert_result.splits)

lemma item_outcome_persisted_iff:
  "item_outcome env i body = Inr Persisted \<longleftrightarrow>
     (\<exists>raw data enriched. decode_utf8 env body = Some raw \<and> json_loads env raw = Some data
        \<and> validate_event (float_repr env) data = Inr []
        \<and> enrich_event env i data = Inr enriched \<and> upsert_item env i enriched = Upserted)"
  by (auto simp: item_outcome_def split: option.splits sum.splits if_splits upsert_result.splits)

lemma utf8_decode_ascii:
  "\<forall>c\<in>set s. (of_char c :: nat) < 128 \<Longrightarrow> utf8_decode s = Some s"
  by (induction s rule: utf8_decode.induct) simp_all

lemma decode_demo_event_json: "utf8_decode demo_event_json = Some demo_event_json"
  by (rule utf8_decode_ascii) (simp add: demo_event_json_def)

lemma demo_event_json_neq: "demo_event_json \<noteq> ''{}''" "demo_event_json \<noteq> ''42''"
  by (simp_all add: demo_event_json_def)

lemma validate_demo_event: "validate_event repr (PDict demo_event) = Inr []"
  by (simp add: validate_event_def enum_check_def demo_event_def required_fields_def
      VALID_EVENT_TYPES_def)

lemma validate_empty_object:
  "validate_event repr (PDict []) =
     Inr [''missing required field: event_id'', ''missing required field: event_type'',
          ''missing required field: user_id'', ''missing required field: content_id'',
          ''missing required field: timestamp'']"
  by (simp add: validate_event_def enum_check_def required_fields_def)

lemma enrich_demo_event: "\<exists>d'. enrich_event demo_env i (PDict demo_event) = Inr (PDict d')"
  using enrich_event_returns [of demo_event demo_env i] by (auto simp: demo_event_def)

lemma outcome_demo_event: "item_outcome demo_env i demo_event_json = Inr Persisted"
  using enrich_demo_event [of i]
  by (auto simp: item_outcome_def demo_env_def decode_demo_event_json demo_json_loads_def
      validate_demo_event)

lemma outcome_empty_object: "item_outcome demo_env i ''{}'' = Inr ValidationRejected"
  by (simp add: item_outcome_def demo_env_def demo_json_loads_def validate_empty_object
      demo_event_json_neq [symmetric])

lemma outcome_not_json: "item_outcome demo_env i ''not json'' = Inr DecodeFailed"
  by (simp add: item_outcome_def demo_env_def demo_json_loads_def demo_event_json_def)

text \<open>
  C9. Whenever \<^verbatim>\<open>main\<close> reports its counts, they add up to the length of the batch;
  and it does report them whenever every item ends in one of the four outcomes
  (persisted, decode failed, validation failed, persist failed): the success count is
  then the number of persisted items, the error count the number of the others, and
  the last log line carries the two counts and the batch length.
\<close>

theorem counts_sum_to_batch_length:
  "(\<forall>st. main env events w = Inr st \<longrightarrow> success_count st + error_count st = length events)
   \<and> ((\<forall>r\<in>set (outcomes_from env 0 events). \<exists>oc. r = Inr oc) \<longrightarrow>
        (\<exists>st. main env events w = Inr st
           \<and> success_count st = count_outcome Persisted env events
           \<and> error_count st = count_outcome DecodeFailed env events
                + count_outcome ValidationRejected env events
                + count_outcome PersistFailed env events
           \<and> success_count st + error_count st = length events
           \<and> last (logs (outside st))
               = BatchComplete (success_count st) (error_count st) (length events)))"
proof (intro conjI allI impI)
  fix st assume "main env events w = Inr st"
  then show "success_count st + error_count st = length events" by (rule main_sum)
next
  assume all: "\<forall>r\<in>set (outcomes_from env 0 events). \<exists>oc. r = Inr oc"
  from main_returns [OF all, of w] obtain st where
    run: "main env events w = Inr st"
    and s: "success_count st = count_outcome Persisted env events"
    and e: "error_count st = length (filter (\<lambda>r. r \<noteq> Inr Persisted) (outcomes_from env 0 events))"
    and l: "last (logs (outside st))
               = BatchComplete (success_count st) (error_count st) (length events)"
    by blast
  have "error_count st = count_outcome DecodeFailed env events
                + count_outcome ValidationRejected env events
                + count_outcome PersistFailed env events"
    using e count_not_persisted [OF all] by (simp add: count_outcome_def)
  with run s l main_sum [OF run]
  show "\<exists>st. main env events w = Inr st
           \<and> success_count st = count_outcome Persisted env events
           \<and> error_count st = count_outcome DecodeFailed env events
                + count_outcome ValidationRejected env events
                + count_outcome PersistFailed env events
           \<and> success_count st + error_count st = length events
           \<and> last (logs (outside st))
               = BatchComplete (success_count st) (error_count st) (length events)"
    by blast
qed

text \<open>The theorem at a batch of a malformed item, a valid event and an empty object.\<close>

theorem counts_sum_to_batch_length_witness:
  "map_sum id success_count (main demo_env [''not json'', demo_event_json, ''{}''] empty_world) = Inr 1
   \<and> map_sum id error_count (main demo_env [''not json'', demo_event_json, ''{}''] empty_world) = Inr 2"
proof -
  have all: "\<forall>r\<in>set (outcomes_from demo_env 0 [''not json'', demo_event_json, ''{}'']). \<exists>oc. r = Inr oc"
    by (simp add: outcome_demo_event outcome_empty_object outcome_not_json)
  from counts_sum_to_batch_length [of demo_env "[''not json'', demo_event_json, ''{}'']" empty_world] all
  obtain st where "main demo_env [''not json'', demo_event_json, ''{}''] empty_world = Inr st"
    and "success_count st = count_outcome Persisted demo_env [''not json'', demo_event_json, ''{}'']"
    and "success_count st + error_count st = length [''not json'', demo_event_json, ''{}'']"
    by blast
  then show ?thesis
    by (simp add: count_outcome_def outcome_demo_event outcome_empty_object outcome_not_json)
qed

text \<open>
  What holds of C1: if every item of a batch either decodes and has the validator
  return violations, or decodes, validates and is persisted, then \<^verbatim>\<open>main\<close> returns,
  its error count is the number \<open>K\<close> of the former and its success count is
  \<open>N - K\<close>, wherever in the batch they are. An invalid item on which the validator
  raises is not covered, and the claim fails there (see below).
\<close>

lemma batch_isolation:
  assumes "\<forall>r\<in>set (outcomes_from env 0 events). r = Inr ValidationRejected \<or> r = Inr Persisted"
  shows "\<exists>st. main env events w = Inr st
           \<and> error_count st = count_outcome ValidationRejected env events
           \<and> success_count st = length events - count_outcome ValidationRejected env events
           \<and> last (logs (outside st))
               = BatchComplete (success_count st) (error_count st) (length events)
           \<and> ((\<forall>r\<in>set (outcomes_from env 0 events). r = Inr ValidationRejected) \<longrightarrow>
                error_count st = length events \<and> success_count st = 0)"
proof -
  from assms have all: "\<forall>r\<in>set (outcomes_from env 0 events). \<exists>oc. r = Inr oc" by blast
  from main_returns [OF all, of w] obtain st where
    run: "main env events w = Inr st"
    and e: "error_count st = length (filter (\<lambda>r. r \<noteq> Inr Persisted) (outcomes_from env 0 events))"
    and l: "last (logs (outside st))
               = BatchComplete (success_count st) (error_count st) (length events)"
    by blast
  have "filter (\<lambda>r. r \<noteq> Inr Persisted) (outcomes_from env 0 events)
      = filter (\<lambda>r. r = Inr ValidationRejected) (outcomes_from env 0 events)"
    using assms by (intro filter_cong) auto
  with e have k: "error_count st = count_outcome ValidationRejected env events"
    by (simp add: count_outcome_def)
  from main_sum [OF run] k
  have s: "success_count st = length events - count_outcome ValidationRejected env events"
    by simp
  have full: "(\<forall>r\<in>set (outcomes_from env 0 events). r = Inr ValidationRejected) \<longrightarrow>
                error_count st = length events \<and> success_count st = 0"
  proof
    assume "\<forall>r\<in>set (outcomes_from env 0 events). r = Inr ValidationRejected"
    then have "filter (\<lambda>r. r = Inr ValidationRejected) (outcomes_from env 0 events)
        = outcomes_from env 0 events"
      by (simp add: filter_id_conv)
    then have "count_outcome ValidationRejected env events = length events"
      by (simp add: count_outcome_def length_outcomes_from)
    with k s show "error_count st = length events \<and> success_count st = 0" by simp
  qed
  from run k s l full show ?thesis by blast
qed

text \<open>
  The lemma at a batch whose first and last items are rejected by the validator, and
  at a batch whose items all are.
\<close>

lemma batch_isolation_example:
  "map_sum id error_count (main demo_env [''{}'', demo_event_json, ''{}''] empty_world) = Inr 2
   \<and> map_sum id success_count (main demo_env [''{}'', demo_event_json, ''{}''] empty_world) = Inr 1
   \<and> map_sum id error_count (main demo_env [''{}'', ''{}''] empty_world) = Inr 2"
proof -
  have h1: "\<forall>r\<in>set (outcomes_from demo_env 0 [''{}'', demo_event_json, ''{}'']).
              r = Inr ValidationRejected \<or> r = Inr Persisted"
    by (simp add: outcome_demo_event outcome_empty_object)
  have h2: "\<forall>r\<in>set (outcomes_from demo_env 0 [''{}'', ''{}'']).
              r = Inr ValidationRejected \<or> r = Inr Persisted"
    by (simp add: outcome_empty_object)
  from batch_isolation [OF h1, of empty_world] obtain st1 where
    "main demo_env [''{}'', demo_event_json, ''{}''] empty_world = Inr st1"
    "error_count st1 = count_outcome ValidationRejected demo_env [''{}'', demo_event_json, ''{}'']"
    "success_count st1 = length [''{}'', demo_event_json, ''{}'']
        - count_outcome ValidationRejected demo_env [''{}'', demo_event_json, ''{}'']"
    by blast
  moreover from batch_isolation [OF h2, of empty_world] obtain st2 where
    "main demo_env [''{}'', ''{}''] empty_world = Inr st2"
    "error_count st2 = count_outcome ValidationRejected demo_env [''{}'', ''{}'']"
    by blast
  ultimately show ?thesis
    by (simp add: count_outcome_def outcome_demo_event outcome_empty_object)
qed

lemma decode_list_type_json: "utf8_decode list_type_json = Some list_type_json"
  by (rule utf8_decode_ascii) (simp add: list_type_json_def)

lemma validate_list_type_event: "validate_event repr (PDict list_type_event) = Inl TypeError"
  by (simp add: list_type_event_def validate_event_def enum_check_def required_fields_def)

text \<open>
  C1 fails on the code. The item below decodes to a payload that is invalid (its
  \<^verbatim>\<open>event_type\<close> is a list, not one of the five event types), so a batch made of it
  alone is a batch whose items are all invalid. The validator does not return its
  violations: the membership test of line 74 hashes the list and raises
  \<^verbatim>\<open>TypeError\<close>, and \<^verbatim>\<open>main\<close> has no handler around the validator. The batch does
  not return cleanly with an error count of one, it raises; and with a valid event
  behind the invalid one, the valid event is never processed.
\<close>

theorem invalid_item_aborts_batch:
  "json_loads list_type_env list_type_json = Some (PDict list_type_event)
   \<and> main list_type_env [list_type_json] empty_world = Inl TypeError
   \<and> main list_type_env [list_type_json, demo_event_json] empty_world = Inl TypeError"
  by (simp add: main_def process_item_def list_type_env_def demo_env_def decode_list_type_json
      validate_list_type_event)

text \<open>
  What holds of C5: an item whose text \<^verbatim>\<open>json.loads\<close> rejects is handed to
  \<^verbatim>\<open>send_to_dlq\<close> with the single error \<^verbatim>\<open>invalid JSON\<close>, adds one to the error
  count, and the loop goes on with the next item.
\<close>

lemma malformed_json_dead_lettered:
  assumes "decode_utf8 env body = Some raw" and "json_loads env raw = None"
  shows "\<exists>w'. send_to_dlq env i raw [''invalid JSON''] (log_event MalformedJson (outside st)) = Inr w'
           \<and> process_item env i body st = Inr (st\<lparr>error_count := error_count st + 1, outside := w'\<rparr>)
           \<and> main_loop env i (body # rest) st
               = main_loop env (Suc i) rest (st\<lparr>error_count := error_count st + 1, outside := w'\<rparr>)"
proof -
  obtain w' where w: "send_to_dlq env i raw [''invalid JSON''] (log_event MalformedJson (outside st)) = Inr w'"
    using send_to_dlq_total by blast
  with assms show ?thesis by (simp add: process_item_def)
qed

lemma utf8_decode_invalid_byte: "utf8_decode [CHR 0xFF] = None"
  by simp

text \<open>
  C5 fails on the code: the body is decoded as UTF-8 before the \<^verbatim>\<open>try\<close>, so an item
  whose bytes are not UTF-8 raises \<^verbatim>\<open>UnicodeDecodeError\<close> out of \<^verbatim>\<open>main\<close>. Nothing is
  dead-lettered or counted, and the valid event after it is not processed.
\<close>

theorem undecodable_bytes_abort_batch:
  "main demo_env [[CHR 0xFF], demo_event_json] empty_world = Inl UnicodeDecodeError"
  by (simp add: main_def process_item_def demo_env_def)

text \<open>
  An item that is JSON but not an object aborts the batch as well: the validator
  calls \<^verbatim>\<open>get\<close> on it.
\<close>

lemma non_object_json_aborts_batch:
  "main demo_env [''42'', demo_event_json] empty_world = Inl AttributeError"
  by (simp add: main_def process_item_def demo_env_def demo_json_loads_def demo_event_json_def
      validate_event_def required_fields_def)



subsection \<open>The generator\<close>

lemma bind_Inr: "m = Inr x \<Longrightarrow> bind m f = f x"
  by (simp add: bind_def)

lemma choice_member: "xs \<noteq> [] \<Longrightarrow> \<exists>x\<in>set xs. choice xs r = Inr x"
  by (simp add: choice_def)

lemma choice_index: "xs \<noteq> [] \<Longrightarrow> \<exists>k<length xs. choice xs r = Inr (xs ! k)"
  by (auto simp: choice_def intro!: exI [of _ "r mod length xs"])

lemma event_type_keys: "fst ` set EVENT_WEIGHTS = VALID_EVENT_TYPES"
  by (auto simp: EVENT_WEIGHTS_def VALID_EVENT_TYPES_def)

lemma device_type_keys: "fst ` set DEVICE_WEIGHTS = VALID_DEVICE_TYPES"
  by (auto simp: DEVICE_WEIGHTS_def VALID_DEVICE_TYPES_def)

lemma make_user_ok:
  "\<exists>u. make_user i ud = Inr u \<and> u_user_id u = ''U'' @ zpad 7 i
     \<and> u_subscription_tier u \<in> set SUBSCRIPTION_TIERS \<and> u_device_type u \<in> VALID_DEVICE_TYPES"
proof -
  obtain tier where t: "tier \<in> set SUBSCRIPTION_TIERS" "choice SUBSCRIPTION_TIERS (ud_tier ud) = Inr tier"
    using choice_member [of SUBSCRIPTION_TIERS "ud_tier ud"] by (auto simp: SUBSCRIPTION_TIERS_def)
  obtain dev where d: "dev \<in> set (map fst DEVICE_WEIGHTS)"
      "choice (map fst DEVICE_WEIGHTS) (ud_device ud) = Inr dev"
    using choice_member [of "map fst DEVICE_WEIGHTS" "ud_device ud"] by (auto simp: DEVICE_WEIGHTS_def)
  obtain loc where l: "choice LOCATIONS (ud_location ud) = Inr loc"
    using choice_member [of LOCATIONS "ud_location ud"] by (auto simp: LOCATIONS_def)
  show ?thesis
    using t d l by (simp add: make_user_def bind_Inr device_type_keys)
qed

lemma build_users_ok:
  "\<exists>us. build_users idx draws = Inr us \<and> length us = length idx
     \<and> (\<forall>k<length idx. u_user_id (us ! k) = ''U'' @ zpad 7 (idx ! k)
          \<and> u_subscription_tier (us ! k) \<in> set SUBSCRIPTION_TIERS
          \<and> u_device_type (us ! k) \<in> VALID_DEVICE_TYPES)"
proof (induction idx)
  case Nil
  then show ?case by simp
next
  case (Cons i rest)
  from make_user_ok [of i "draws i"] obtain u where u: "make_user i (draws i) = Inr u"
    "u_user_id u = ''U'' @ zpad 7 i" "u_subscription_tier u \<in> set SUBSCRIPTION_TIERS"
    "u_device_type u \<in> VALID_DEVICE_TYPES" by blast
  from Cons.IH obtain us where us: "build_users rest draws = Inr us" "length us = length rest"
    "\<forall>k<length rest. u_user_id (us ! k) = ''U'' @ zpad 7 (rest ! k)
          \<and> u_subscription_tier (us ! k) \<in> set SUBSCRIPTION_TIERS
          \<and> u_device_type (us ! k) \<in> VALID_DEVICE_TYPES" by blast
  have run: "build_users (i # rest) draws = Inr (u # us)"
    using u(1) us(1) by (simp add: bind_Inr)
  show ?case
    unfolding run using u us by (auto simp: nth_Cons split: nat.splits)
qed

lemma build_user_pool_ok:
  "\<exists>us. build_user_pool n draws = Inr us \<and> length us = n \<and> (\<forall>u\<in>set us. pool_user n u)"
proof -
  from build_users_ok [of "[0..<n]" draws] obtain us where
    us: "build_users [0..<n] draws = Inr us" "length us = n"
    "\<forall>k<n. u_user_id (us ! k) = ''U'' @ zpad 7 ([0..<n] ! k)
          \<and> u_subscription_tier (us ! k) \<in> set SUBSCRIPTION_TIERS
          \<and> u_device_type (us ! k) \<in> VALID_DEVICE_TYPES" by auto
  have "\<forall>u\<in>set us. pool_user n u"
  proof
    fix u assume "u \<in> set us"
    then obtain k where k: "k < n" "u = us ! k" using us(2) by (auto simp: in_set_conv_nth)
    with us(3) show "pool_user n u" by (auto simp: pool_user_def)
  qed
  with us show ?thesis by (auto simp: build_user_pool_def)
qed

lemma quality_options_ok:
  "tier \<in> set SUBSCRIPTION_TIERS \<Longrightarrow>
   \<exists>qs. quality_options tier = Inr qs \<and> map_of QUALITY_MAP tier = Some qs
     \<and> qs \<noteq> [] \<and> fst ` set qs = tier_resolutions tier"
  by (auto simp: SUBSCRIPTION_TIERS_def quality_options_def QUALITY_MAP_def tier_resolutions_def)

lemma py_random_range: "0 \<le> py_random r \<and> py_random r < 1"
  by (simp add: py_random_def)

lemma uniform_range: "a \<le> b \<Longrightarrow> a \<le> uniform a b r \<and> uniform a b r \<le> b"
proof -
  assume ab: "a \<le> b"
  have "0 \<le> (b - a) * py_random r" using ab py_random_range by simp
  moreover have "(b - a) * py_random r \<le> (b - a) * 1"
    using ab py_random_range [of r] by (intro mult_left_mono) auto
  ultimately show ?thesis by (simp add: uniform_def)
qed

lemma round_half_even_bounds:
  assumes "of_int a \<le> y" and "y \<le> of_int b"
  shows "a \<le> round_half_even y \<and> round_half_even y \<le> b"
proof -
  have f1: "a \<le> \<lfloor>y\<rfloor>" using assms(1) by (simp add: le_floor_iff)
  have f2: "\<lfloor>y\<rfloor> \<le> b" using assms(2) by (simp add: floor_le_iff)
  have f3: "y - of_int \<lfloor>y\<rfloor> \<noteq> 0 \<Longrightarrow> \<lfloor>y\<rfloor> + 1 \<le> b"
  proof -
    assume "y - of_int \<lfloor>y\<rfloor> \<noteq> 0"
    then have "of_int \<lfloor>y\<rfloor> < y" using of_int_floor_le [of y] by linarith
    with assms(2) have "of_int \<lfloor>y\<rfloor> < (of_int b :: real)" by linarith
    then show ?thesis by simp
  qed
  show ?thesis
    using f1 f2 f3 unfolding round_half_even_def Let_def
    by (auto split: if_splits)
qed

lemma py_round_buffer_bounds:
  assumes "500 \<le> x" and "x \<le> 15000"
  shows "500 \<le> py_round x 1 \<and> py_round x 1 \<le> 15000"
proof -
  have "of_int 5000 \<le> x * 10" "x * 10 \<le> of_int 150000" using assms by simp_all
  from round_half_even_bounds [OF this]
  have "5000 \<le> round_half_even (x * 10)" "round_half_even (x * 10) \<le> 150000" by simp_all
  then have "(5000::real) \<le> of_int (round_half_even (x * 10))"
    and "of_int (round_half_even (x * 10)) \<le> (150000::real)"
    by linarith+
  then show ?thesis by (simp add: py_round_def)
qed

lemma py_round_zero: "py_round 0 n = 0"
  by (simp add: py_round_def round_half_even_def)

lemma generate_event_ok:
  assumes pool: "users \<noteq> []" "\<forall>u\<in>set users. pool_user n u"
  shows "\<exists>ev. generate_event users d = Inr ev
     \<and> event_type ev \<in> VALID_EVENT_TYPES
     \<and> device_type ev \<in> VALID_DEVICE_TYPES
     \<and> (\<exists>i<n. user_id ev = ''U'' @ zpad 7 i)
     \<and> (buffer_duration_ms ev \<noteq> None \<longleftrightarrow> event_type ev = ''buffer_event'')
     \<and> (\<forall>b. buffer_duration_ms ev = Some b \<longrightarrow> 500 \<le> b \<and> b \<le> 15000)
     \<and> (duration_seconds ev \<noteq> 0 \<longrightarrow> event_type ev \<in> {''video_stop'', ''video_complete''})
     \<and> (\<exists>qs q. map_of QUALITY_MAP (subscription_tier ev) = Some qs \<and> q \<in> set qs
            \<and> map_of (quality_settings ev) ''resolution'' = Some (PStr (fst q))
            \<and> map_of (quality_settings ev) ''bitrate_kbps'' = Some (PInt (int (snd q)))
            \<and> fst q \<in> tier_resolutions (subscription_tier ev))
     \<and> event_id ev \<noteq> [] \<and> user_id ev \<noteq> [] \<and> content_id ev \<noteq> [] \<and> timestamp ev \<noteq> []"
proof -
  obtain usr where usr: "usr \<in> set users" "choice users (d_user d) = Inr usr"
    using choice_member [OF pool(1)] by blast
  with pool(2) have pu: "pool_user n usr" by blast
  obtain content where c: "content \<in> set CONTENT_CATALOG"
      "choice CONTENT_CATALOG (d_content d) = Inr content"
    using choice_member [of CONTENT_CATALOG "d_content d"] by (auto simp: CONTENT_CATALOG_def)
  have cid: "c_id content \<noteq> []"
    using c(1) by (auto simp: CONTENT_CATALOG_def catalog_entry_def)
  obtain etype where e: "etype \<in> VALID_EVENT_TYPES"
      "choice (map fst EVENT_WEIGHTS) (d_event_type d) = Inr etype"
    using choice_member [of "map fst EVENT_WEIGHTS" "d_event_type d"]
    by (auto simp: EVENT_WEIGHTS_def VALID_EVENT_TYPES_def)
  from pu have tier: "u_subscription_tier usr \<in> set SUBSCRIPTION_TIERS"
    by (simp add: pool_user_def)
  from quality_options_ok [OF tier]
  obtain qs where q: "quality_options (u_subscription_tier usr) = Inr qs" "qs \<noteq> []"
      "fst ` set qs = tier_resolutions (u_subscription_tier usr)"
      and qm: "map_of QUALITY_MAP (u_subscription_tier usr) = Some qs"
    by blast
  obtain quality where ql: "quality \<in> set qs" "choice qs (d_quality d) = Inr quality"
    using choice_member [OF q(2)] by blast
  have res: "fst quality \<in> tier_resolutions (u_subscription_tier usr)"
    using ql(1) q(3) by auto
  have buf: "500 \<le> py_round (uniform 500 15000 (d_buffer d)) 1
      \<and> py_round (uniform 500 15000 (d_buffer d)) 1 \<le> 15000"
    using uniform_range [of 500 15000 "d_buffer d"] py_round_buffer_bounds by simp
  have iso: "isoformat (d_now d) \<noteq> []" by (simp add: isoformat_def)
  have uid: "str_uuid (d_event_id d) \<noteq> []" by (simp add: str_uuid_def Let_def)
  show ?thesis
    using usr(2) c(2) e q(1) ql pu res buf iso uid cid qm
    by (auto simp: generate_event_def bind_Inr Let_def pool_user_def py_round_zero)
qed

lemma generated_ok:
  assumes "0 < n"
  shows "\<exists>users. build_user_pool n draws = Inr users \<and> users \<noteq> []
           \<and> (\<forall>u\<in>set users. pool_user n u)
           \<and> generated n draws d = generate_event users d"
proof -
  from build_user_pool_ok [of n draws] obtain us where
    us: "build_user_pool n draws = Inr us" "length us = n" "\<forall>u\<in>set us. pool_user n u"
    by blast
  with assms have "us \<noteq> []" by auto
  with us show ?thesis by (auto simp: generated_def bind_Inr)
qed

text \<open>With an empty pool no event is produced: \<^verbatim>\<open>random.choice\<close> raises.\<close>

lemma empty_pool_raises: "generated 0 draws d = Inl IndexError"
  by (simp add: generated_def build_user_pool_def bind_def generate_event_def choice_def)

lemma zpad_7_0: "zpad 7 0 = ''0000000''"
  by code_simp

lemma str_nat_1: "str_nat (Suc 0) = ''1''"
  by code_simp

lemma str_uuid_0: "str_uuid 0 = ''00000000-0000-0000-0000-000000000000''"
  by code_simp

lemma zero_pool:
  "build_user_pool (Suc 0) zero_user_draws
   = Inr [\<lparr>u_user_id = ''U0000000'', u_profile_id = ''P0000000_1'', u_device_type = ''smart_tv'',
           u_device_id = ''00000000-0000-0000-0000-000000000000'',
           u_location = location_entry ''US'' ''California'' ''Los Angeles'' 34.05 (- 118.24),
           u_subscription_tier = ''basic''\<rparr>]"
  by (simp add: build_user_pool_def make_user_def bind_def choice_def zero_user_draws_def
      SUBSCRIPTION_TIERS_def DEVICE_WEIGHTS_def LOCATIONS_def randint_def zpad_7_0 str_nat_1
      str_uuid_0)


text \<open>
  C8, as amended. A generator with a pool of at least one user produces an event, and
  every event it produces has its \<^verbatim>\<open>event_type\<close> and \<^verbatim>\<open>device_type\<close> in the closed
  enumerations; a \<^verbatim>\<open>user_id\<close> that is \<^verbatim>\<open>U\<close> followed by the zero-padded index of a user
  of the pool; \<^verbatim>\<open>buffer_duration_ms\<close> set exactly for buffer events, and then between
  500 and 15000, both ends included; \<^verbatim>\<open>duration_seconds\<close> nonzero only for
  \<^verbatim>\<open>video_stop\<close> and \<^verbatim>\<open>video_complete\<close>; and resolution and bitrate taken from one of
  the quality tuples of the user's subscription tier.
\<close>

theorem generated_event_shape:
  assumes "0 < n"
  shows "\<exists>ev. generated n draws d = Inr ev
     \<and> event_type ev \<in> VALID_EVENT_TYPES
     \<and> device_type ev \<in> VALID_DEVICE_TYPES
     \<and> (\<exists>i<n. user_id ev = ''U'' @ zpad 7 i)
     \<and> (buffer_duration_ms ev \<noteq> None \<longleftrightarrow> event_type ev = ''buffer_event'')
     \<and> (\<forall>b. buffer_duration_ms ev = Some b \<longrightarrow> 500 \<le> b \<and> b \<le> 15000)
     \<and> (duration_seconds ev \<noteq> 0 \<longrightarrow> event_type ev \<in> {''video_stop'', ''video_complete''})
     \<and> (\<exists>qs q. map_of QUALITY_MAP (subscription_tier ev) = Some qs \<and> q \<in> set qs
            \<and> map_of (quality_settings ev) ''resolution'' = Some (PStr (fst q))
            \<and> map_of (quality_settings ev) ''bitrate_kbps'' = Some (PInt (int (snd q)))
            \<and> fst q \<in> tier_resolutions (subscription_tier ev))"
proof -
  from generated_ok [OF assms, of draws d] obtain users where
    u: "users \<noteq> []" "\<forall>u\<in>set users. pool_user n u"
       "generated n draws d = generate_event users d"
    by blast
  from generate_event_ok [OF u(1) u(2), of d] show ?thesis
    unfolding u(3) by blast
qed

text \<open>The theorem at the event of the zero draws.\<close>

theorem generated_event_shape_witness:
  "map_sum id event_type (generated 1 zero_user_draws zero_draws) = Inr ''video_start''
   \<and> map_sum id user_id (generated 1 zero_user_draws zero_draws) = Inr ''U0000000''
   \<and> map_sum id buffer_duration_ms (generated 1 zero_user_draws zero_draws) = Inr None
   \<and> map_sum id quality_settings (generated 1 zero_user_draws zero_draws)
       = Inr [(''resolution'', PStr ''480p''), (''bitrate_kbps'', PInt 2500),
              (''audio_codec'', PStr ''AAC''), (''video_codec'', PStr ''H.265''),
              (''hdr_enabled'', PBool False)]
   \<and> map_sum id subscription_tier (generated 1 zero_user_draws zero_draws) = Inr ''basic''"
proof -
  have pos: "0 < (1::nat)" by simp
  from generated_event_shape [OF pos, of zero_user_draws zero_draws]
  show ?thesis
    by (simp add: generated_def zero_pool generate_event_def bind_def choice_def
      zero_draws_def CONTENT_CATALOG_def catalog_entry_def EVENT_WEIGHTS_def quality_options_def
      QUALITY_MAP_def Let_def py_round_def uniform_def py_random_def round_half_even_def)
qed

text \<open>
  C8 as stated fails: \<^verbatim>\<open>random.random()\<close> can return 0, \<^verbatim>\<open>random.uniform(500, 15000)\<close>
  is then 500, and the buffer duration of the event is exactly 500, not strictly
  above it. (Every draw below 500.05 gives 500 as well, after \<^verbatim>\<open>round(x, 1)\<close>.)
\<close>

theorem buffer_duration_can_equal_500:
  "map_sum id event_type (generated 1 zero_user_draws buffer_draws) = Inr ''buffer_event''
   \<and> map_sum id buffer_duration_ms (generated 1 zero_user_draws buffer_draws) = Inr (Some 500)"
  by (simp add: generated_def zero_pool generate_event_def bind_def choice_def buffer_draws_def
      zero_draws_def CONTENT_CATALOG_def EVENT_WEIGHTS_def quality_options_def QUALITY_MAP_def
      Let_def py_round_def uniform_def py_random_def round_half_even_def)





end
